theory Spec2Isabelle
  imports Main "HOL-Library.Word"
begin

section \<open>The YNAB API client: request executor with retries\<close>

text \<open>
  A shallow embedding of \<^verbatim>\<open>internal/api/client.go\<close> (function \<^verbatim>\<open>request\<close>) and
  \<^verbatim>\<open>internal/api/errors.go\<close>. The loop of \<^verbatim>\<open>request\<close> is a recursive function on the
  attempt counter; its local variables (\<^verbatim>\<open>backoff\<close>, \<^verbatim>\<open>lastErr\<close>, the body reader) are a
  record passed from one iteration to the next. Everything the function does to the outside
  (a call of \<^verbatim>\<open>time.Sleep\<close>, a call of \<^verbatim>\<open>httpClient.Do\<close>) is appended to a trace, so that
  the number of attempts and the time slept can be read off the result.
\<close>

subsection \<open>Constants\<close>

definition BaseURL :: string where
  "BaseURL = ''https://api.youneedabudget.com/v1''"

definition MaxRetries :: nat where
  "MaxRetries = 3"

text \<open>\<^verbatim>\<open>time.Duration\<close> is a signed 64-bit count of nanoseconds; its arithmetic wraps.\<close>

type_synonym Duration = "64 word"

definition Second :: Duration where
  "Second = 1000000000"

definition InitialBackoff :: Duration where
  "InitialBackoff = 1 * Second"

definition StatusBadRequest :: int where "StatusBadRequest = 400"
definition StatusUnauthorized :: int where "StatusUnauthorized = 401"
definition StatusNotFound :: int where "StatusNotFound = 404"
definition StatusTooManyRequests :: int where "StatusTooManyRequests = 429"

subsection \<open>Formatting and parsing of integers\<close>

text \<open>The verb \<^verbatim>\<open>%d\<close> of \<^verbatim>\<open>fmt.Sprintf\<close> on an \<^verbatim>\<open>int\<close>: decimal digits, a minus sign when negative.\<close>

fun nat_digits :: "nat \<Rightarrow> string" where
  "nat_digits n =
     (if n < 10 then [''0123456789'' ! n]
      else nat_digits (n div 10) @ [''0123456789'' ! (n mod 10)])"

declare nat_digits.simps [simp del]

definition fmt_d :: "int \<Rightarrow> string" where
  "fmt_d i = (if i < 0 then CHR ''-'' # nat_digits (nat (- i)) else nat_digits (nat i))"

text \<open>
  \<^verbatim>\<open>strconv.Atoi\<close> of the Go standard library, for a 64-bit \<^verbatim>\<open>int\<close>: an optional sign
  \<^verbatim>\<open>+\<close> or \<^verbatim>\<open>-\<close>, then one or more decimal digits and nothing else; a value outside
  \<open>[-2^63, 2^63 - 1]\<close> is a range error. \<open>None\<close> stands for \<^verbatim>\<open>err != nil\<close>.
\<close>

definition is_digit :: "char \<Rightarrow> bool" where
  "is_digit ch = (48 \<le> (of_char ch :: nat) \<and> (of_char ch :: nat) \<le> 57)"

fun digits_value :: "nat \<Rightarrow> string \<Rightarrow> nat" where
  "digits_value n [] = n"
| "digits_value n (ch # s) = digits_value (n * 10 + (of_char ch - 48)) s"

definition Atoi :: "string \<Rightarrow> int option" where
  "Atoi s0 =
     (let neg = (s0 \<noteq> [] \<and> hd s0 = CHR ''-'');
          s = (if s0 \<noteq> [] \<and> (hd s0 = CHR ''-'' \<or> hd s0 = CHR ''+'') then tl s0 else s0)
      in if s = [] \<or> \<not> list_all is_digit s then None
         else let n = int (digits_value 0 s);
                  v = (if neg then - n else n)
              in if v < - (2 ^ 63) \<or> 2 ^ 63 - 1 < v then None else Some v)"

subsection \<open>Errors (errors.go)\<close>

record YNABError =
  Message :: string
  StatusCode :: int
  ErrorID :: string
  Detail :: string

definition IsAuthError :: "YNABError \<Rightarrow> bool" where
  "IsAuthError e = (StatusCode e = StatusUnauthorized)"

definition IsRateLimitError :: "YNABError \<Rightarrow> bool" where
  "IsRateLimitError e = (StatusCode e = StatusTooManyRequests)"

definition IsServerError :: "YNABError \<Rightarrow> bool" where
  "IsServerError e = (StatusCode e \<ge> 500 \<and> StatusCode e < 600)"

definition IsNotFoundError :: "YNABError \<Rightarrow> bool" where
  "IsNotFoundError e = (StatusCode e = StatusNotFound)"

definition IsBadRequestError :: "YNABError \<Rightarrow> bool" where
  "IsBadRequestError e = (StatusCode e = StatusBadRequest)"

definition IsRetryable :: "YNABError \<Rightarrow> bool" where
  "IsRetryable e = (IsRateLimitError e \<or> IsServerError e)"

definition NewAuthError :: YNABError where
  "NewAuthError =
     \<lparr>Message = ''Unauthorized: Invalid or missing access token'',
      StatusCode = StatusUnauthorized,
      ErrorID = [],
      Detail = ''Please check your YNAB_ACCESS_TOKEN environment variable''\<rparr>"

definition NewRateLimitError :: "int \<Rightarrow> YNABError" where
  "NewRateLimitError retryAfter =
     \<lparr>Message = ''Rate limit exceeded. Retry after '' @ fmt_d retryAfter @ '' seconds'',
      StatusCode = StatusTooManyRequests,
      ErrorID = [],
      Detail = ''YNAB API has rate limits. Please wait before retrying''\<rparr>"

definition NewServerError :: "int \<Rightarrow> YNABError" where
  "NewServerError statusCode =
     \<lparr>Message = ''YNAB server error'',
      StatusCode = statusCode,
      ErrorID = [],
      Detail = ''The YNAB API is experiencing issues. Please try again later''\<rparr>"

text \<open>
  The values of Go's \<^verbatim>\<open>error\<close> that \<^verbatim>\<open>request\<close> builds: an error of a library
  (\<^verbatim>\<open>net/http\<close>, \<^verbatim>\<open>io\<close>) with its text, a \<^verbatim>\<open>*YNABError\<close>, \<^verbatim>\<open>fmt.Errorf\<close> with a
  prefix and a wrapped error (\<^verbatim>\<open>"prefix: %w"\<close>), and \<^verbatim>\<open>fmt.Errorf\<close> without one.
\<close>

datatype error =
    Lib string
  | API YNABError
  | Wrap string error
  | Plain string

text \<open>\<^verbatim>\<open>errors.As(err, &ynabErr)\<close>: the first \<^verbatim>\<open>*YNABError\<close> in the chain of wrapped errors.\<close>

fun as_YNABError :: "error \<Rightarrow> YNABError option" where
  "as_YNABError (Lib s) = None"
| "as_YNABError (API e) = Some e"
| "as_YNABError (Wrap p e) = as_YNABError e"
| "as_YNABError (Plain s) = None"

definition IsYNABError :: "error \<Rightarrow> bool" where
  "IsYNABError err = (as_YNABError err \<noteq> None)"

subsection \<open>Requests, responses and the outside world\<close>

record Client =
  token :: string
  baseURL :: string
  defaultBudgetID :: string

text \<open>
  What \<^verbatim>\<open>http.NewRequest\<close> hands to the transport. \<open>req_Body\<close> is what the body reader
  still holds when the request is built (\<open>None\<close> for a nil reader).
\<close>

record request =
  req_Method :: string
  req_URL :: string
  req_Header :: "(string \<times> string) list"
  req_Body :: "string option"

text \<open>
  The fields of \<^verbatim>\<open>http.Response\<close> that \<^verbatim>\<open>request\<close> reads. \<open>resp_ReadAll\<close> is the result of
  \<^verbatim>\<open>io.ReadAll(resp.Body)\<close>: \<open>Inl\<close> its error, \<open>Inr\<close> the bytes of the body.
\<close>

record response =
  resp_StatusCode :: int
  resp_Status :: string
  resp_Header :: "string \<rightharpoonup> string list"
  resp_ReadAll :: "string + string"

text \<open>
  The result of one call of \<^verbatim>\<open>httpClient.Do\<close>: the error or the response it returns, and
  the number of bytes the transport has read from the request's body reader meanwhile.
\<close>

record exchange =
  result :: "string + response"
  bodyRead :: nat

text \<open>The anonymous struct \<^verbatim>\<open>errorResp.Error\<close> that the body of a failed response is decoded into.\<close>

record errorResp =
  Error_ID :: string
  Error_Name :: string
  Error_Detail :: string

text \<open>
  The parts of the run that the code does not decide: whether \<^verbatim>\<open>http.NewRequest\<close> accepts
  a method and an URL (\<open>Some\<close> its error otherwise), what the \<open>n\<close>-th call of
  \<^verbatim>\<open>httpClient.Do\<close> of this run yields (counted from 0; the loop calls it once per attempt),
  and what \<^verbatim>\<open>json.Unmarshal(respBody, &errorResp)\<close> decodes from a body (\<open>None\<close> for
  \<^verbatim>\<open>err != nil\<close>). The theorems hold for every such world.
\<close>

record world =
  NewRequest :: "string \<Rightarrow> string \<Rightarrow> string option"
  Do :: "nat \<Rightarrow> exchange"
  Unmarshal :: "string \<Rightarrow> errorResp option"

text \<open>\<^verbatim>\<open>Header.Get\<close>: the first value stored under the key, the empty string when there is none.\<close>

definition Header_Get :: "(string \<rightharpoonup> string list) \<Rightarrow> string \<Rightarrow> string" where
  "Header_Get h k = (case h k of None \<Rightarrow> [] | Some [] \<Rightarrow> [] | Some (v # vs) \<Rightarrow> v)"

text \<open>A reader that has given out \<open>k\<close> more bytes holds the rest; a nil reader stays nil.\<close>

definition consume :: "string option \<Rightarrow> nat \<Rightarrow> string option" where
  "consume rd k = map_option (drop k) rd"

subsection \<open>The trace\<close>

datatype event =
    Sleep Duration
  | Attempt nat request

text \<open>\<^verbatim>\<open>time.Sleep(d)\<close> returns at once when \<open>d\<close> is zero or negative.\<close>

definition slept_ns :: "Duration \<Rightarrow> nat" where
  "slept_ns d = (if sint d \<le> 0 then 0 else nat (sint d))"

fun total_slept :: "event list \<Rightarrow> nat" where
  "total_slept [] = 0"
| "total_slept (Sleep d # es) = slept_ns d + total_slept es"
| "total_slept (Attempt n q # es) = total_slept es"

fun attempts :: "event list \<Rightarrow> nat list" where
  "attempts [] = []"
| "attempts (Sleep d # es) = attempts es"
| "attempts (Attempt n q # es) = n # attempts es"

fun sleeps :: "event list \<Rightarrow> Duration list" where
  "sleeps [] = []"
| "sleeps (Sleep d # es) = d # sleeps es"
| "sleeps (Attempt n q # es) = sleeps es"

subsection \<open>The executor (client.go, request)\<close>

record retry_state =
  backoff :: Duration
  lastErr :: "error option"
  reader :: "string option"
  trace :: "event list"

datatype step =
    Continue retry_state
  | Return "error + string" retry_state

text \<open>Lines 95 to 100: the number of seconds to wait after a 429.\<close>

definition retryAfter :: "response \<Rightarrow> int" where
  "retryAfter resp =
     (let retryHeader = Header_Get (resp_Header resp) ''Retry-After''
      in if retryHeader \<noteq> [] then (case Atoi retryHeader of Some val \<Rightarrow> val | None \<Rightarrow> 60)
         else 60)"

text \<open>Lines 110 to 132: the error built from a response that is not 2xx.\<close>

definition ynabErr :: "world \<Rightarrow> response \<Rightarrow> string \<Rightarrow> YNABError" where
  "ynabErr w resp respBody =
     (case Unmarshal w respBody of
        Some e \<Rightarrow>
          if Error_Name e \<noteq> [] then
            \<lparr>Message = Error_Name e, StatusCode = resp_StatusCode resp,
             ErrorID = Error_ID e, Detail = Error_Detail e\<rparr>
          else
            \<lparr>Message = ''HTTP request failed: '' @ resp_Status resp,
             StatusCode = resp_StatusCode resp, ErrorID = [], Detail = []\<rparr>
      | None \<Rightarrow>
          \<lparr>Message = ''HTTP request failed: '' @ resp_Status resp,
           StatusCode = resp_StatusCode resp, ErrorID = [], Detail = []\<rparr>)"

definition new_request :: "Client \<Rightarrow> string \<Rightarrow> string \<Rightarrow> string option \<Rightarrow> request" where
  "new_request c method url body =
     \<lparr>req_Method = method, req_URL = url,
      req_Header = [(''Authorization'', ''Bearer '' @ token c),
                    (''Content-Type'', ''application/json''),
                    (''User-Agent'', ''Via-YNAB/2.0'')],
      req_Body = body\<rparr>"

text \<open>Lines 60 to 64: the wait at the top of an iteration.\<close>

definition wait_before :: "nat \<Rightarrow> retry_state \<Rightarrow> retry_state" where
  "wait_before attempt st =
     (if attempt > 0 then
        st\<lparr>trace := trace st @ [Sleep (backoff st)], backoff := backoff st * 2\<rparr>
      else st)"

text \<open>Lines 85 to 150: what the loop does with a response.\<close>

definition handle_response :: "world \<Rightarrow> response \<Rightarrow> retry_state \<Rightarrow> step" where
  "handle_response w resp st =
     (case resp_ReadAll resp of
        Inl err \<Rightarrow> Continue (st\<lparr>lastErr := Some (Wrap ''failed to read response'' (Lib err))\<rparr>)
      | Inr respBody \<Rightarrow>
          if resp_StatusCode resp = StatusTooManyRequests then
            Continue (st\<lparr>lastErr := Some (API (NewRateLimitError (retryAfter resp))),
                        trace := trace st @ [Sleep (word_of_int (retryAfter resp) * Second)]\<rparr>)
          else if resp_StatusCode resp < 200 \<or> resp_StatusCode resp \<ge> 300 then
            if resp_StatusCode resp = StatusUnauthorized then Return (Inl (API NewAuthError)) st
            else if IsServerError (ynabErr w resp respBody) then
              Continue (st\<lparr>lastErr := Some (API (ynabErr w resp respBody))\<rparr>)
            else Return (Inl (API (ynabErr w resp respBody))) st
          else Return (Inr respBody) st)"

text \<open>Lines 60 to 150: one iteration of the loop.\<close>

definition iteration :: "world \<Rightarrow> Client \<Rightarrow> string \<Rightarrow> string \<Rightarrow> nat \<Rightarrow> retry_state \<Rightarrow> step" where
  "iteration w c method endpoint attempt st0 =
     (let st1 = wait_before attempt st0;
          url = baseURL c @ endpoint
      in case NewRequest w method url of
           Some err \<Rightarrow> Return (Inl (Wrap ''failed to create request'' (Lib err))) st1
         | None \<Rightarrow>
             let req = new_request c method url (reader st1);
                 ex = Do w attempt;
                 st2 = st1\<lparr>trace := trace st1 @ [Attempt attempt req],
                           reader := consume (reader st1) (bodyRead ex)\<rparr>
             in (case result ex of
                   Inl err \<Rightarrow> Continue (st2\<lparr>lastErr := Some (Wrap ''request failed'' (Lib err))\<rparr>)
                 | Inr resp \<Rightarrow> handle_response w resp st2))"

text \<open>Lines 153 to 157: the error once the loop has run out of attempts.\<close>

definition exhausted :: "retry_state \<Rightarrow> error" where
  "exhausted st =
     (case lastErr st of
        Some err \<Rightarrow> Wrap (''request failed after '' @ fmt_d (int MaxRetries) @ '' retries'') err
      | None \<Rightarrow> Plain (''request failed after '' @ fmt_d (int MaxRetries) @ '' retries''))"

function request_loop ::
  "world \<Rightarrow> Client \<Rightarrow> string \<Rightarrow> string \<Rightarrow> nat \<Rightarrow> retry_state \<Rightarrow> (error + string) \<times> retry_state"
where
  "request_loop w c method endpoint attempt st =
     (if attempt \<le> MaxRetries then
        (case iteration w c method endpoint attempt st of
           Continue st' \<Rightarrow> request_loop w c method endpoint (attempt + 1) st'
         | Return r st' \<Rightarrow> (r, st'))
      else (Inl (exhausted st), st))"
  by pat_completeness auto

termination
  by (relation "measure (\<lambda>(w, c, method, endpoint, attempt, st). MaxRetries + 1 - attempt)") auto

declare request_loop.simps [simp del]

definition request ::
  "world \<Rightarrow> Client \<Rightarrow> string \<Rightarrow> string \<Rightarrow> string option \<Rightarrow> (error + string) \<times> retry_state"
where
  "request w c method endpoint body =
     request_loop w c method endpoint 0
       \<lparr>backoff = InitialBackoff, lastErr = None, reader = body, trace = []\<rparr>"

subsection \<open>A run in closed form\<close>

text \<open>
  The functions of this subsection are not in the source: they describe, from the world alone,
  what an attempt leads to, and the lemmas below prove that \<open>request\<close> does just that.

  \<open>retryable r\<close>: the iteration whose call of \<^verbatim>\<open>httpClient.Do\<close> gave \<open>r\<close> ends with
  \<^verbatim>\<open>continue\<close>: the transport failed, the body could not be read, or the body was read and
  the status is 429 or 5xx.
\<close>

definition retryable :: "string + response \<Rightarrow> bool" where
  "retryable r =
     (case r of
        Inl err \<Rightarrow> True
      | Inr resp \<Rightarrow>
          (case resp_ReadAll resp of
             Inl err \<Rightarrow> True
           | Inr respBody \<Rightarrow>
               resp_StatusCode resp = 429 \<or> (500 \<le> resp_StatusCode resp \<and> resp_StatusCode resp < 600)))"

text \<open>The error that such an iteration leaves in \<^verbatim>\<open>lastErr\<close>.\<close>

definition retry_error :: "world \<Rightarrow> string + response \<Rightarrow> error" where
  "retry_error w r =
     (case r of
        Inl err \<Rightarrow> Wrap ''request failed'' (Lib err)
      | Inr resp \<Rightarrow>
          (case resp_ReadAll resp of
             Inl err \<Rightarrow> Wrap ''failed to read response'' (Lib err)
           | Inr respBody \<Rightarrow>
               if resp_StatusCode resp = 429 then API (NewRateLimitError (retryAfter resp))
               else API (ynabErr w resp respBody)))"

text \<open>What an iteration that does not continue returns.\<close>

definition final_result :: "world \<Rightarrow> string + response \<Rightarrow> error + string" where
  "final_result w r =
     (case r of
        Inl err \<Rightarrow> Inl (Lib err)
      | Inr resp \<Rightarrow>
          (case resp_ReadAll resp of
             Inl err \<Rightarrow> Inl (Lib err)
           | Inr respBody \<Rightarrow>
               if 200 \<le> resp_StatusCode resp \<and> resp_StatusCode resp < 300 then Inr respBody
               else if resp_StatusCode resp = 401 then Inl (API NewAuthError)
               else Inl (API (ynabErr w resp respBody))))"

text \<open>
  The sleep inside the processing of an attempt: the rate-limit wait, taken when the body
  was read and the status is 429, and at no other outcome.
\<close>

definition rate_limit_sleep :: "string + response \<Rightarrow> event list" where
  "rate_limit_sleep r =
     (case r of
        Inl err \<Rightarrow> []
      | Inr resp \<Rightarrow>
          (case resp_ReadAll resp of
             Inl err \<Rightarrow> []
           | Inr respBody \<Rightarrow>
               if resp_StatusCode resp = 429 then [Sleep (word_of_int (retryAfter resp) * Second)]
               else []))"

definition after_attempt ::
  "world \<Rightarrow> Client \<Rightarrow> string \<Rightarrow> string \<Rightarrow> nat \<Rightarrow> retry_state \<Rightarrow> retry_state"
where
  "after_attempt w c method endpoint n st =
     \<lparr>backoff = (if n > 0 then backoff st * 2 else backoff st),
      lastErr = (if retryable (result (Do w n)) then Some (retry_error w (result (Do w n)))
                 else lastErr st),
      reader = consume (reader st) (bodyRead (Do w n)),
      trace = trace st @ (if n > 0 then [Sleep (backoff st)] else [])
                @ [Attempt n (new_request c method (baseURL c @ endpoint) (reader st))]
                @ rate_limit_sleep (result (Do w n))\<rparr>"

text \<open>The state of the loop after \<open>n\<close> attempts that all ended with \<^verbatim>\<open>continue\<close>.\<close>

primrec state_at ::
  "world \<Rightarrow> Client \<Rightarrow> string \<Rightarrow> string \<Rightarrow> string option \<Rightarrow> nat \<Rightarrow> retry_state"
where
  "state_at w c method endpoint body 0 =
     \<lparr>backoff = InitialBackoff, lastErr = None, reader = body, trace = []\<rparr>"
| "state_at w c method endpoint body (Suc n) =
     after_attempt w c method endpoint n (state_at w c method endpoint body n)"

text \<open>The number of attempts made from attempt \<open>n\<close> on when \<open>k\<close> iterations are left.\<close>

primrec made :: "world \<Rightarrow> nat \<Rightarrow> nat \<Rightarrow> nat" where
  "made w 0 n = 0"
| "made w (Suc k) n = (if retryable (result (Do w n)) then Suc (made w k (Suc n)) else 1)"

definition attempts_made :: "world \<Rightarrow> nat" where
  "attempts_made w = made w (MaxRetries + 1) 0"

definition outcome ::
  "world \<Rightarrow> Client \<Rightarrow> string \<Rightarrow> string \<Rightarrow> string option \<Rightarrow> nat \<Rightarrow> error + string"
where
  "outcome w c method endpoint body N =
     (if retryable (result (Do w (N - 1)))
      then Inl (exhausted (state_at w c method endpoint body N))
      else final_result w (result (Do w (N - 1))))"

text \<open>
  The request of attempt \<open>n\<close>: its body is what the one reader still holds after the
  transport has read from it in the attempts before.
\<close>

definition sent :: "world \<Rightarrow> Client \<Rightarrow> string \<Rightarrow> string \<Rightarrow> string option \<Rightarrow> nat \<Rightarrow> request" where
  "sent w c method endpoint body n =
     new_request c method (baseURL c @ endpoint) (consume body (\<Sum>i<n. bodyRead (Do w i)))"

text \<open>The events of attempt \<open>n\<close>: the backoff wait, the attempt, the rate-limit wait.\<close>

definition chunk ::
  "world \<Rightarrow> Client \<Rightarrow> string \<Rightarrow> string \<Rightarrow> string option \<Rightarrow> nat \<Rightarrow> event list"
where
  "chunk w c method endpoint body n =
     (if 0 < n then [Sleep (InitialBackoff * 2 ^ (n - 1))] else [])
     @ [Attempt n (sent w c method endpoint body n)]
     @ rate_limit_sleep (result (Do w n))"

text \<open>
  The events from the end of attempt \<open>n - 1\<close> to attempt \<open>n\<close>: the rate-limit wait of the
  attempt before, the backoff wait at the top of the iteration, the attempt itself.
\<close>

definition lead_up ::
  "world \<Rightarrow> Client \<Rightarrow> string \<Rightarrow> string \<Rightarrow> string option \<Rightarrow> nat \<Rightarrow> event list"
where
  "lead_up w c method endpoint body n =
     (if 0 < n then rate_limit_sleep (result (Do w (n - 1))) @ [Sleep (InitialBackoff * 2 ^ (n - 1))]
      else [])
     @ [Attempt n (sent w c method endpoint body n)]"

text \<open>
  A trace in which the only sleeps are single waits between two attempts: it is empty, or
  it starts and ends with an attempt and has exactly one sleep between any two.
\<close>

fun inter_attempt_sleeps_only :: "event list \<Rightarrow> bool" where
  "inter_attempt_sleeps_only [] = True"
| "inter_attempt_sleeps_only [Attempt n q] = True"
| "inter_attempt_sleeps_only (Attempt n q # Sleep d # Attempt n' q' # es) =
     inter_attempt_sleeps_only (Attempt n' q' # es)"
| "inter_attempt_sleeps_only es = False"

subsection \<open>Concrete worlds\<close>

definition client0 :: Client where
  "client0 = \<lparr>token = ''test-token'', baseURL = ''http://127.0.0.1:8080'', defaultBudgetID = []\<rparr>"

text \<open>A response with the given status code, status text, headers and body, fully read.\<close>

definition served :: "int \<Rightarrow> string \<Rightarrow> (string \<rightharpoonup> string list) \<Rightarrow> string \<Rightarrow> exchange" where
  "served code status hdr body =
     \<lparr>result = Inr \<lparr>resp_StatusCode = code, resp_Status = status, resp_Header = hdr,
                     resp_ReadAll = Inr body\<rparr>,
      bodyRead = 0\<rparr>"

text \<open>A response whose body cannot be read.\<close>

definition unreadable :: "int \<Rightarrow> string \<Rightarrow> string \<Rightarrow> exchange" where
  "unreadable code status err =
     \<lparr>result = Inr \<lparr>resp_StatusCode = code, resp_Status = status, resp_Header = Map.empty,
                     resp_ReadAll = Inl err\<rparr>,
      bodyRead = 0\<rparr>"

definition ok_body :: string where
  \<open>ok_body = ''{"data":{"budgets":[]}}''\<close>

definition error_body :: string where
  \<open>error_body = ''{"error":{"id":"e1","name":"Bad Request","detail":"missing field"}}''\<close>

text \<open>A decoder that knows the one error envelope above and rejects every other body.\<close>

definition decode_example :: "string \<Rightarrow> errorResp option" where
  "decode_example b =
     (if b = error_body
      then Some \<lparr>Error_ID = ''e1'', Error_Name = ''Bad Request'', Error_Detail = ''missing field''\<rparr>
      else None)"

text \<open>The world whose first exchange is \<open>a\<close> and whose every later exchange is \<open>b\<close>.\<close>

definition first_then :: "exchange \<Rightarrow> exchange \<Rightarrow> world" where
  "first_then a b =
     \<lparr>NewRequest = (\<lambda>method url. None), Do = (\<lambda>n. if n = 0 then a else b),
      Unmarshal = decode_example\<rparr>"

definition rate_limited_5 :: exchange where
  "rate_limited_5 = served 429 ''429 Too Many Requests'' [''Retry-After'' \<mapsto> [''5'']] []"

definition rate_limited_neg :: exchange where
  "rate_limited_neg = served 429 ''429 Too Many Requests'' [''Retry-After'' \<mapsto> [''-5'']] []"

definition success :: exchange where
  "success = served 200 ''200 OK'' Map.empty ok_body"

definition server_error :: exchange where
  "server_error = served 500 ''500 Internal Server Error'' Map.empty ''invalid json''"

definition not_found :: exchange where
  \<open>not_found = served 404 ''404 Not Found'' Map.empty ''{"error":{}}''\<close>

definition cut_off :: exchange where
  "cut_off = unreadable 200 ''200 OK'' ''unexpected EOF''"

text \<open>The transport fails before any response arrives.\<close>

definition refused :: exchange where
  "refused = \<lparr>result = Inl ''dial tcp 127.0.0.1:8080: connect: connection refused'', bodyRead = 0\<rparr>"

text \<open>A 500 that arrives after the transport has read 3 bytes of the request body.\<close>

definition server_error_after_body :: exchange where
  "server_error_after_body = server_error\<lparr>bodyRead := 3\<rparr>"

definition unauthorized :: exchange where
  "unauthorized = served 401 ''401 Unauthorized'' Map.empty error_body"

text \<open>A 429 with \<^verbatim>\<open>Retry-After: 5\<close> whose body is the error envelope.\<close>

definition rate_limited_envelope :: exchange where
  "rate_limited_envelope =
     served 429 ''429 Too Many Requests'' [''Retry-After'' \<mapsto> [''5'']] error_body"

definition bad_request :: exchange where
  "bad_request = served 400 ''400 Bad Request'' Map.empty error_body"

section \<open>The run in closed form: proofs\<close>

lemma handle_response_closed:
  "handle_response w resp st =
     (if retryable (Inr resp) then
        Continue (st\<lparr>lastErr := Some (retry_error w (Inr resp)),
                    trace := trace st @ rate_limit_sleep (Inr resp)\<rparr>)
      else Return (final_result w (Inr resp))
             (st\<lparr>trace := trace st @ rate_limit_sleep (Inr resp)\<rparr>))"
proof (cases "resp_ReadAll resp")
  case (Inl err)
  then show ?thesis
    by (simp add: handle_response_def retryable_def retry_error_def rate_limit_sleep_def)
next
  case (Inr respBody)
  then show ?thesis
    by (simp add: handle_response_def retryable_def retry_error_def rate_limit_sleep_def
        final_result_def IsServerError_def ynabErr_def StatusTooManyRequests_def
        StatusUnauthorized_def split: option.splits)
qed

lemma iteration_closed:
  assumes "NewRequest w method (baseURL c @ endpoint) = None"
  shows "iteration w c method endpoint n st =
           (if retryable (result (Do w n)) then Continue (after_attempt w c method endpoint n st)
            else Return (final_result w (result (Do w n)))
                   (after_attempt w c method endpoint n st))"
proof (cases "result (Do w n)")
  case (Inl err)
  with assms show ?thesis
    by (simp add: iteration_def wait_before_def after_attempt_def retryable_def
        retry_error_def rate_limit_sleep_def Let_def)
next
  case (Inr resp)
  with assms show ?thesis
    by (simp add: iteration_def Let_def handle_response_closed wait_before_def after_attempt_def)
qed

lemma request_loop_closed:
  assumes nr: "NewRequest w method (baseURL c @ endpoint) = None"
  shows "n + k = MaxRetries + 1 \<Longrightarrow> 0 < k \<Longrightarrow>
     request_loop w c method endpoint n (state_at w c method endpoint body n) =
       (outcome w c method endpoint body (n + made w k n),
        state_at w c method endpoint body (n + made w k n))"
proof (induction k arbitrary: n)
  case 0
  then show ?case by simp
next
  case (Suc k)
  have le: "n \<le> MaxRetries" using Suc.prems by simp
  show ?case
  proof (cases "retryable (result (Do w n))")
    case False
    then show ?thesis
      using le by (simp add: request_loop.simps [of _ _ _ _ n] iteration_closed [OF nr] outcome_def)
  next
    case True
    show ?thesis
    proof (cases k)
      case 0
      then have n: "\<not> Suc n \<le> MaxRetries" using Suc.prems by simp
      show ?thesis
        using True 0 n le
        by (simp add: request_loop.simps [of _ _ _ _ n] request_loop.simps [of _ _ _ _ "Suc n"]
            iteration_closed [OF nr] outcome_def)
    next
      case (Suc k')
      then have "Suc n + k = MaxRetries + 1" "0 < k" using Suc.prems by simp_all
      from Suc.IH [OF this] show ?thesis
        using True le
        by (simp add: request_loop.simps [of _ _ _ _ n] iteration_closed [OF nr])
    qed
  qed
qed

lemma request_closed:
  assumes nr: "NewRequest w method (baseURL c @ endpoint) = None"
  shows "request w c method endpoint body =
       (outcome w c method endpoint body (attempts_made w),
        state_at w c method endpoint body (attempts_made w))"
  using request_loop_closed [OF nr, of 0 "MaxRetries + 1" body]
  by (simp add: request_def attempts_made_def)

lemma request_not_created:
  assumes "NewRequest w method (baseURL c @ endpoint) = Some err"
  shows "request w c method endpoint body =
       (Inl (Wrap ''failed to create request'' (Lib err)),
        \<lparr>backoff = InitialBackoff, lastErr = None, reader = body, trace = []\<rparr>)"
  using assms
  by (simp add: request_def request_loop.simps [of _ _ _ _ 0] iteration_def wait_before_def)


lemma consume_consume: "consume (consume rd a) b = consume rd (a + b)"
  by (cases rd) (simp_all add: consume_def add.commute)

lemma consume_0: "consume rd 0 = rd"
  by (cases rd) (simp_all add: consume_def)

lemma backoff_state_at:
  "backoff (state_at w c method endpoint body n) = InitialBackoff * 2 ^ (n - 1)"
proof (induction n)
  case 0
  then show ?case by simp
next
  case (Suc n)
  then show ?case by (cases n) (simp_all add: after_attempt_def)
qed

lemma reader_state_at:
  "reader (state_at w c method endpoint body n) = consume body (\<Sum>i<n. bodyRead (Do w i))"
  by (induction n) (simp_all add: after_attempt_def consume_consume consume_0)

lemma trace_state_at:
  "trace (state_at w c method endpoint body n) = concat (map (chunk w c method endpoint body) [0..<n])"
  by (induction n) (simp_all add: after_attempt_def chunk_def sent_def backoff_state_at reader_state_at)

lemma lastErr_state_at:
  "retryable (result (Do w n)) \<Longrightarrow>
   lastErr (state_at w c method endpoint body (Suc n)) = Some (retry_error w (result (Do w n)))"
  by (simp add: after_attempt_def)

lemma attempts_append: "attempts (es @ fs) = attempts es @ attempts fs"
  by (induction es rule: attempts.induct) simp_all

lemma sleeps_append: "sleeps (es @ fs) = sleeps es @ sleeps fs"
  by (induction es rule: sleeps.induct) simp_all

lemma total_slept_append: "total_slept (es @ fs) = total_slept es + total_slept fs"
  by (induction es rule: total_slept.induct) simp_all

lemma attempts_rate_limit_sleep: "attempts (rate_limit_sleep r) = []"
  by (simp add: rate_limit_sleep_def split: sum.splits)

lemma attempts_chunk: "attempts (chunk w c method endpoint body n) = [n]"
  by (simp add: chunk_def attempts_append attempts_rate_limit_sleep)

lemma attempts_state_at:
  "attempts (trace (state_at w c method endpoint body n)) = [0..<n]"
  unfolding trace_state_at
  by (induction n) (simp_all add: attempts_append attempts_chunk)

lemma made_le: "made w k n \<le> k"
  by (induction k arbitrary: n) simp_all

lemma made_pos: "0 < k \<Longrightarrow> 0 < made w k n"
  by (cases k) simp_all

lemma made_retryable: "Suc i < made w k n \<Longrightarrow> retryable (result (Do w (n + i)))"
proof (induction k arbitrary: n i)
  case 0
  then show ?case by simp
next
  case (Suc k)
  show ?case
  proof (cases i)
    case 0
    with Suc.prems show ?thesis by (simp split: if_splits)
  next
    case (Suc j)
    with Suc.prems Suc.IH [of j "Suc n"] show ?thesis by (simp split: if_splits)
  qed
qed

lemma made_continues:
  "i < made w k n \<Longrightarrow> retryable (result (Do w (n + i))) \<Longrightarrow> Suc i < k \<Longrightarrow> Suc i < made w k n"
proof (induction k arbitrary: n i)
  case 0
  then show ?case by simp
next
  case (Suc k)
  show ?case
  proof (cases i)
    case 0
    with Suc.prems show ?thesis by (cases k) simp_all
  next
    case (Suc j)
    with Suc.prems Suc.IH [of j "Suc n"] show ?thesis by (simp split: if_splits)
  qed
qed

lemma made_stops:
  "i < made w k n \<Longrightarrow> \<not> retryable (result (Do w (n + i))) \<Longrightarrow> made w k n = Suc i"
  using made_retryable [of i w k n] by (cases "Suc i < made w k n") simp_all

lemma attempts_made_le: "attempts_made w \<le> MaxRetries + 1"
  unfolding attempts_made_def by (rule made_le)

lemma attempts_made_pos: "0 < attempts_made w"
  unfolding attempts_made_def by (rule made_pos) simp

lemma trace_request:
  assumes "NewRequest w method (baseURL c @ endpoint) = None"
  shows "trace (snd (request w c method endpoint body)) =
           concat (map (chunk w c method endpoint body) [0..<attempts_made w])"
  by (simp add: request_closed [OF assms] trace_state_at)

lemma attempts_request:
  assumes "NewRequest w method (baseURL c @ endpoint) = None"
  shows "attempts (trace (snd (request w c method endpoint body))) = [0..<attempts_made w]"
  by (simp add: request_closed [OF assms] attempts_state_at)

lemma fst_request:
  assumes "NewRequest w method (baseURL c @ endpoint) = None"
  shows "fst (request w c method endpoint body) = outcome w c method endpoint body (attempts_made w)"
  by (simp add: request_closed [OF assms])

lemma attempt_made_iff:
  assumes "NewRequest w method (baseURL c @ endpoint) = None"
  shows "n \<in> set (attempts (trace (snd (request w c method endpoint body)))) \<longleftrightarrow> n < attempts_made w"
  by (simp add: attempts_request [OF assms])

lemma attempts_made_stops:
  assumes "n < attempts_made w" and "\<not> retryable (result (Do w n))"
  shows "attempts_made w = Suc n"
proof -
  have "n < made w (MaxRetries + 1) 0"
    using assms(1) by (simp only: attempts_made_def)
  moreover have "\<not> retryable (result (Do w (0 + n)))"
    using assms(2) by simp
  ultimately have "made w (MaxRetries + 1) 0 = Suc n"
    by (rule made_stops)
  then show ?thesis by (simp only: attempts_made_def)
qed

lemma attempts_made_continues:
  assumes "n < attempts_made w" and "retryable (result (Do w n))" and "n < MaxRetries"
  shows "Suc n < attempts_made w"
proof -
  have "n < made w (MaxRetries + 1) 0"
    using assms(1) by (simp only: attempts_made_def)
  moreover have "retryable (result (Do w (0 + n)))"
    using assms(2) by simp
  moreover have "Suc n < MaxRetries + 1"
    using assms(3) by simp
  ultimately have "Suc n < made w (MaxRetries + 1) 0"
    by (rule made_continues)
  then show ?thesis by (simp only: attempts_made_def)
qed

lemma attempts_made_retryable:
  assumes "Suc n < attempts_made w"
  shows "retryable (result (Do w n))"
proof -
  have "Suc n < made w (MaxRetries + 1) 0"
    using assms by (simp only: attempts_made_def)
  then have "retryable (result (Do w (0 + n)))"
    by (rule made_retryable)
  then show ?thesis by simp
qed

lemma chunks_lead_up:
  "concat (map (chunk w c method endpoint body) [0..<Suc N]) =
   concat (map (lead_up w c method endpoint body) [0..<Suc N]) @ rate_limit_sleep (result (Do w N))"
  by (induction N) (simp_all add: chunk_def lead_up_def)

lemma fmt_d_MaxRetries: "fmt_d (int MaxRetries) = ''3''"
  by (simp add: fmt_d_def MaxRetries_def nat_digits.simps)

lemma exhausted_Some:
  "lastErr st = Some err \<Longrightarrow> exhausted st = Wrap ''request failed after 3 retries'' err"
  by (simp add: exhausted_def fmt_d_MaxRetries)

lemma outcome_exhausted:
  "retryable (result (Do w n)) \<Longrightarrow>
   outcome w c method endpoint body (Suc n) =
     Inl (Wrap ''request failed after 3 retries'' (retry_error w (result (Do w n))))"
  by (simp add: outcome_def exhausted_Some after_attempt_def)

lemma outcome_final:
  "\<not> retryable (result (Do w n)) \<Longrightarrow>
   outcome w c method endpoint body (Suc n) = final_result w (result (Do w n))"
  by (simp add: outcome_def)

lemma sint_seconds:
  assumes "\<bar>v\<bar> \<le> 9223372036"
  shows "sint (word_of_int v * Second :: Duration) = v * 1000000000"
proof -
  have eq: "word_of_int v * Second = (word_of_int (v * 1000000000) :: Duration)"
    by (simp add: Second_def)
  have "- (2 ^ 63) \<le> v * 1000000000" and "v * 1000000000 < 2 ^ 63"
    using assms by simp_all
  then have "signed_take_bit 63 (v * 1000000000) = v * 1000000000"
    by (rule signed_take_bit_int_eq_self)
  moreover have "sint (word_of_int (v * 1000000000) :: Duration) =
      signed_take_bit (LENGTH(64) - 1) (v * 1000000000)"
    by (rule sint_sbintrunc')
  ultimately have "sint (word_of_int (v * 1000000000) :: Duration) = v * 1000000000"
    by simp
  then show ?thesis by (simp only: eq)
qed

lemma slept_ns_seconds:
  assumes "\<bar>v\<bar> \<le> 9223372036"
  shows "slept_ns (word_of_int v * Second) = nat v * 1000000000"
  using sint_seconds [OF assms]
  by (simp add: slept_ns_def nat_mult_distrib)

lemma backoff_value:
  "n \<le> MaxRetries \<Longrightarrow> InitialBackoff * 2 ^ n = (word_of_int (2 ^ n) * Second :: Duration)"
  by (simp add: InitialBackoff_def)

lemma slept_ns_backoff:
  assumes "n \<le> MaxRetries"
  shows "slept_ns (InitialBackoff * 2 ^ n) = 2 ^ n * 1000000000"
proof -
  have "(2::int) ^ n \<le> 2 ^ 3"
    using assms unfolding MaxRetries_def by (intro power_increasing) simp_all
  then have "\<bar>(2::int) ^ n\<bar> \<le> 9223372036" by simp
  from slept_ns_seconds [OF this] show ?thesis
    by (simp add: InitialBackoff_def nat_power_eq mult.commute)
qed

lemma upt_0_4: "[0..<4] = [0, 1, 2, 3::nat]"
  by (simp add: upt_rec)

lemma attempts_made_all_retryable:
  assumes "\<forall>n\<le>MaxRetries. retryable (result (Do w n))"
  shows "attempts_made w = MaxRetries + 1"
proof -
  have "retryable (result (Do w 0))" "retryable (result (Do w (Suc 0)))"
    "retryable (result (Do w (Suc (Suc 0))))" "retryable (result (Do w (Suc (Suc (Suc 0)))))"
    using assms by (simp_all add: MaxRetries_def)
  then show ?thesis
    by (simp add: attempts_made_def MaxRetries_def eval_nat_numeral)
qed

lemma attempts_bounded:
  "\<exists>k\<le>MaxRetries + 1. attempts (trace (snd (request w c method endpoint body))) = [0..<k]"
proof (cases "NewRequest w method (baseURL c @ endpoint)")
  case None
  show ?thesis
    using attempts_request [OF None] attempts_made_le by blast
next
  case (Some err)
  show ?thesis
    by (rule exI [of _ 0]) (simp add: request_not_created [OF Some])
qed

lemma trace_ends_with_attempt:
  assumes nr: "NewRequest w method (baseURL c @ endpoint) = None"
    and N: "attempts_made w = Suc n"
    and nowait: "rate_limit_sleep (result (Do w n)) = []"
  shows "\<exists>es. trace (snd (request w c method endpoint body)) =
           es @ [Attempt n (sent w c method endpoint body n)]"
proof -
  have "trace (snd (request w c method endpoint body)) =
      (concat (map (chunk w c method endpoint body) [0..<n])
        @ (if 0 < n then [Sleep (InitialBackoff * 2 ^ (n - 1))] else []))
      @ [Attempt n (sent w c method endpoint body n)]"
    by (simp add: trace_request [OF nr] N chunk_def nowait)
  then show ?thesis by blast
qed

lemma retry_iff:
  assumes nr: "NewRequest w method (baseURL c @ endpoint) = None"
  shows "Suc i \<in> set (attempts (trace (snd (request w c method endpoint body)))) \<longleftrightarrow>
         i \<in> set (attempts (trace (snd (request w c method endpoint body)))) \<and>
         i < MaxRetries \<and> retryable (result (Do w i))"
proof -
  have "Suc i < attempts_made w \<longleftrightarrow> i < attempts_made w \<and> i < MaxRetries \<and> retryable (result (Do w i))"
    using attempts_made_le [of w] attempts_made_retryable [of i w]
      attempts_made_continues [of i w]
    by auto
  then show ?thesis by (simp only: attempt_made_iff [OF nr])
qed

lemma upt_split:
  "n < N \<Longrightarrow> [0..<N] = [0..<Suc n] @ [Suc n..<N]"
  by (metis Suc_leI le0 upt_add_eq_append le_Suc_ex)

lemma trace_prefix:
  assumes nr: "NewRequest w method (baseURL c @ endpoint) = None"
    and n: "n < attempts_made w"
  shows "trace (snd (request w c method endpoint body)) =
           concat (map (lead_up w c method endpoint body) [0..<Suc n])
           @ rate_limit_sleep (result (Do w n))
           @ concat (map (chunk w c method endpoint body) [Suc n..<attempts_made w])"
  by (simp only: trace_request [OF nr] upt_split [OF n] map_append concat_append
      chunks_lead_up append_assoc)

lemma Attempt_in_rate_limit_sleep: "Attempt n q \<notin> set (rate_limit_sleep r)"
  by (simp add: rate_limit_sleep_def split: sum.splits)

lemma Attempt_in_chunk:
  "Attempt n q \<in> set (chunk w c method endpoint body i) \<longleftrightarrow>
   n = i \<and> q = sent w c method endpoint body i"
  by (auto simp add: chunk_def Attempt_in_rate_limit_sleep)

lemma Attempt_in_trace:
  assumes nr: "NewRequest w method (baseURL c @ endpoint) = None"
  shows "Attempt n q \<in> set (trace (snd (request w c method endpoint body))) \<longleftrightarrow>
         n < attempts_made w \<and> q = sent w c method endpoint body n"
  by (auto simp add: trace_request [OF nr] Attempt_in_chunk)

lemma lead_up_fun:
  "lead_up w c method endpoint body =
     (\<lambda>n. (if 0 < n
            then rate_limit_sleep (result (Do w (n - 1))) @ [Sleep (InitialBackoff * 2 ^ (n - 1))]
            else [])
          @ [Attempt n (sent w c method endpoint body n)])"
  by (rule ext) (simp add: lead_up_def)

lemma rate_limit_sleep_429:
  "rate_limit_sleep r \<noteq> [] \<Longrightarrow>
   \<exists>resp b. r = Inr resp \<and> resp_ReadAll resp = Inr b \<and> resp_StatusCode resp = 429"
  by (auto simp add: rate_limit_sleep_def split: sum.splits if_splits)

text \<open>The definitions that evaluate a run in a concrete world.\<close>

lemmas run_defs =
  request_def request_loop.simps iteration_def wait_before_def handle_response_def
  new_request_def consume_def retryAfter_def Header_Get_def Atoi_def is_digit_def ynabErr_def
  exhausted_def fmt_d_def nat_digits.simps IsServerError_def NewAuthError_def
  NewRateLimitError_def MaxRetries_def InitialBackoff_def Second_def
  StatusTooManyRequests_def StatusUnauthorized_def slept_ns_def Let_def

lemmas world_defs =
  first_then_def served_def unreadable_def client0_def decode_example_def
  rate_limited_5_def rate_limited_neg_def success_def server_error_def not_found_def cut_off_def
  refused_def server_error_after_body_def unauthorized_def bad_request_def
  rate_limited_envelope_def

text \<open>
  The model of \<^verbatim>\<open>strconv.Atoi\<close> on some inputs, and a value of \<^verbatim>\<open>Retry-After\<close> whose
  count of nanoseconds does not fit 64 bits: the duration wraps to a negative one and
  \<^verbatim>\<open>time.Sleep\<close> returns at once.
\<close>

lemma Atoi_examples:
  "Atoi ''5'' = Some 5" "Atoi ''+5'' = Some 5" "Atoi ''-5'' = Some (- 5)" "Atoi ''60'' = Some 60"
  "Atoi [] = None" "Atoi ''invalid'' = None" "Atoi ''5s'' = None" "Atoi ''-'' = None"
  "Atoi ''9223372036854775807'' = Some 9223372036854775807"
  "Atoi ''9223372036854775808'' = None"
  by (simp_all add: Atoi_def is_digit_def)

lemma retry_after_overflow:
  "Atoi ''9223372037'' = Some 9223372037 \<and>
   sint (word_of_int 9223372037 * Second :: Duration) = - 9223372036709551616 \<and>
   slept_ns (word_of_int 9223372037 * Second) = 0"
  by (simp add: Atoi_def is_digit_def Second_def slept_ns_def)

section \<open>The claims\<close>

text \<open>
  In all of the following, an attempt is one call of \<^verbatim>\<open>httpClient.Do\<close>; the attempts of a
  run are the numbers \<open>attempts (trace \<dots>)\<close>, counted from 0 as the loop counts them, and
  the time slept is read off the \<open>Sleep\<close> events of the trace, in nanoseconds
  (\<open>Second\<close> is one time-unit). A response is received when \<^verbatim>\<open>httpClient.Do\<close> returned it
  and \<^verbatim>\<open>io.ReadAll\<close> read its body.
\<close>

text \<open>
  C1. Claimed: when the first attempt is answered with 429 and \<^verbatim>\<open>Retry-After: 5\<close> and the
  second succeeds, the time slept is the server's wait alone (at least 5 and less than 6
  time-units), and the backoff is not advanced by the rate-limited attempt.

  The code does otherwise at this very input: it sleeps the 5 seconds inside the attempt
  (line 103) and then, at the top of the next iteration (lines 60 to 64), the backoff of
  1 second as well, and doubles the backoff. There are 2 attempts and the body of the second
  is returned, but the time slept is 6 seconds and the backoff has moved on to 2 seconds.
\<close>

theorem rate_limit_wait_added_to_backoff:
  "fst (request (first_then rate_limited_5 success) client0 ''GET'' ''/budgets'' None) = Inr ok_body \<and>
   attempts (trace (snd (request (first_then rate_limited_5 success) client0 ''GET'' ''/budgets'' None))) = [0, 1] \<and>
   sleeps (trace (snd (request (first_then rate_limited_5 success) client0 ''GET'' ''/budgets'' None))) = [5 * Second, 1 * Second] \<and>
   total_slept (trace (snd (request (first_then rate_limited_5 success) client0 ''GET'' ''/budgets'' None))) = 6000000000 \<and>
   backoff (snd (request (first_then rate_limited_5 success) client0 ''GET'' ''/budgets'' None)) = 2 * Second"
  by (simp add: run_defs world_defs)

text \<open>
  C2, as claimed: the only sleeps of a run are single waits between two attempts, taken at
  the top of an iteration whose attempt counter is greater than 0. This fails for a 429
  with \<^verbatim>\<open>Retry-After: 5\<close> followed by a 200: the iteration with attempt counter 0 sleeps
  5 seconds while it processes the response, and two sleeps lie between the two attempts of
  the run.
\<close>

theorem sleep_inside_rate_limited_attempt:
  "iteration (first_then rate_limited_5 success) client0 ''GET'' ''/budgets'' 0
     \<lparr>backoff = InitialBackoff, lastErr = None, reader = None, trace = []\<rparr> =
   Continue
     \<lparr>backoff = InitialBackoff, lastErr = Some (API (NewRateLimitError 5)), reader = None,
      trace = [Attempt 0 (new_request client0 ''GET'' (baseURL client0 @ ''/budgets'') None),
               Sleep (5 * Second)]\<rparr> \<and>
   trace (snd (request (first_then rate_limited_5 success) client0 ''GET'' ''/budgets'' None)) =
     [Attempt 0 (new_request client0 ''GET'' (baseURL client0 @ ''/budgets'') None),
      Sleep (5 * Second),
      Sleep (1 * Second),
      Attempt 1 (new_request client0 ''GET'' (baseURL client0 @ ''/budgets'') None)] \<and>
   \<not> inter_attempt_sleeps_only
       (trace (snd (request (first_then rate_limited_5 success) client0 ''GET'' ''/budgets'' None)))"
  by (simp add: run_defs world_defs)

text \<open>
  C2, amended. A run sleeps at two points only: at the top of an iteration whose attempt
  counter is greater than 0 (the backoff, \<open>InitialBackoff * 2 ^ (n - 1)\<close> before attempt
  \<open>n\<close>), and inside the processing of an attempt that received a 429 (the rate-limit
  wait, before the next attempt). So the trace up to its last attempt is, for each attempt
  \<open>n\<close> in turn: the rate-limit wait of attempt \<open>n - 1\<close> if that one received a 429, the
  backoff wait if \<open>n > 0\<close>, the attempt. Nothing follows a last attempt that did not
  receive a 429; no attempt with another outcome sleeps while it is processed. A run
  whose request cannot be built does not sleep at all.
\<close>

theorem sleeps_at_two_points:
  "(\<forall>err. NewRequest w method (baseURL c @ endpoint) = Some err \<longrightarrow>
      trace (snd (request w c method endpoint body)) = []) \<and>
   (NewRequest w method (baseURL c @ endpoint) = None \<longrightarrow>
      (\<exists>tail.
         trace (snd (request w c method endpoint body)) =
           concat (map (\<lambda>n. (if 0 < n
                               then rate_limit_sleep (result (Do w (n - 1)))
                                    @ [Sleep (InitialBackoff * 2 ^ (n - 1))]
                               else [])
                             @ [Attempt n (sent w c method endpoint body n)])
                       [0..<length (attempts (trace (snd (request w c method endpoint body))))])
           @ tail \<and>
         (rate_limit_sleep
            (result (Do w (length (attempts (trace (snd (request w c method endpoint body)))) - 1)))
            = [] \<longrightarrow> tail = []))) \<and>
   (\<forall>n. rate_limit_sleep (result (Do w n)) \<noteq> [] \<longrightarrow>
      (\<exists>resp b. result (Do w n) = Inr resp \<and> resp_ReadAll resp = Inr b \<and>
         resp_StatusCode resp = 429))"
proof (intro conjI allI impI)
  fix err
  assume "NewRequest w method (baseURL c @ endpoint) = Some err"
  then show "trace (snd (request w c method endpoint body)) = []"
    by (simp add: request_not_created)
next
  assume nr: "NewRequest w method (baseURL c @ endpoint) = None"
  let ?T = "trace (snd (request w c method endpoint body))"
  obtain m where m: "attempts_made w = Suc m"
    using attempts_made_pos [of w] by (cases "attempts_made w") simp_all
  have len: "length (attempts ?T) = Suc m"
    by (simp add: attempts_request [OF nr] m)
  have t0: "?T = concat (map (\<lambda>n. (if 0 < n
                               then rate_limit_sleep (result (Do w (n - 1)))
                                    @ [Sleep (InitialBackoff * 2 ^ (n - 1))]
                               else [])
                             @ [Attempt n (sent w c method endpoint body n)])
                       [0..<Suc m])
      @ rate_limit_sleep (result (Do w m))"
    by (simp only: trace_request [OF nr] m chunks_lead_up lead_up_fun)
  show "\<exists>tail. ?T =
      concat (map (\<lambda>n. (if 0 < n
                          then rate_limit_sleep (result (Do w (n - 1)))
                               @ [Sleep (InitialBackoff * 2 ^ (n - 1))]
                          else [])
                        @ [Attempt n (sent w c method endpoint body n)])
                  [0..<length (attempts ?T)])
      @ tail \<and>
      (rate_limit_sleep (result (Do w (length (attempts ?T) - 1))) = [] \<longrightarrow> tail = [])"
  proof (rule exI [of _ "rate_limit_sleep (result (Do w m))"], intro conjI impI)
    show "?T =
      concat (map (\<lambda>n. (if 0 < n
                          then rate_limit_sleep (result (Do w (n - 1)))
                               @ [Sleep (InitialBackoff * 2 ^ (n - 1))]
                          else [])
                        @ [Attempt n (sent w c method endpoint body n)])
                  [0..<length (attempts ?T)])
      @ rate_limit_sleep (result (Do w m))"
      by (simp only: len) (rule t0)
    assume "rate_limit_sleep (result (Do w (length (attempts ?T) - 1))) = []"
    then show "rate_limit_sleep (result (Do w m)) = []"
      by (simp only: len diff_Suc_1)
  qed
next
  fix n
  assume "rate_limit_sleep (result (Do w n)) \<noteq> []"
  then show "\<exists>resp b. result (Do w n) = Inr resp \<and> resp_ReadAll resp = Inr b \<and>
      resp_StatusCode resp = 429"
    by (rule rate_limit_sleep_429)
qed

text \<open>A 429 with \<^verbatim>\<open>Retry-After: 5\<close>, then a 200: both sleeps, and nothing after the 200.\<close>

theorem sleeps_at_two_points_witness:
  "trace (snd (request (first_then rate_limited_5 success) client0 ''GET'' ''/budgets'' None)) =
     [Attempt 0 (sent (first_then rate_limited_5 success) client0 ''GET'' ''/budgets'' None 0),
      Sleep (5 * Second),
      Sleep (1 * Second),
      Attempt 1 (sent (first_then rate_limited_5 success) client0 ''GET'' ''/budgets'' None 1)]"
proof -
  let ?w = "first_then rate_limited_5 success"
  let ?T = "trace (snd (request ?w client0 ''GET'' ''/budgets'' None))"
  have nr: "NewRequest ?w ''GET'' (baseURL client0 @ ''/budgets'') = None"
    by (simp add: world_defs)
  have len: "length (attempts ?T) = 2"
    by (simp add: run_defs world_defs)
  have w0: "rate_limit_sleep (result (Do ?w 0)) = [Sleep (5 * Second)]"
    by (simp add: rate_limit_sleep_def world_defs retryAfter_def Header_Get_def Atoi_def
        is_digit_def)
  have w1: "rate_limit_sleep (result (Do ?w 1)) = []"
    by (simp add: rate_limit_sleep_def world_defs)
  from sleeps_at_two_points [of ?w "''GET''" client0 "''/budgets''" None] nr
  obtain tail where
    tr: "?T = concat (map (\<lambda>n. (if 0 < n
                               then rate_limit_sleep (result (Do ?w (n - 1)))
                                    @ [Sleep (InitialBackoff * 2 ^ (n - 1))]
                               else [])
                             @ [Attempt n (sent ?w client0 ''GET'' ''/budgets'' None n)])
                       [0..<length (attempts ?T)])
           @ tail"
    and tl: "rate_limit_sleep (result (Do ?w (length (attempts ?T) - 1))) = [] \<longrightarrow> tail = []"
    by blast
  have "tail = []"
    using tl w1 by (simp add: len)
  with tr have "?T = concat (map (\<lambda>n. (if 0 < n
                               then rate_limit_sleep (result (Do ?w (n - 1)))
                                    @ [Sleep (InitialBackoff * 2 ^ (n - 1))]
                               else [])
                             @ [Attempt n (sent ?w client0 ''GET'' ''/budgets'' None n)])
                       [0..<2])"
    by (simp only: len append_Nil2)
  moreover have "[0..<2] = [0, 1::nat]"
    by (simp add: upt_rec)
  ultimately show ?thesis
    using w0 by (simp add: InitialBackoff_def)
qed

text \<open>
  C3, as claimed: a \<^verbatim>\<open>Retry-After\<close> value that is negative never becomes the wait, the
  default of 60 time-units is taken instead. This fails for \<^verbatim>\<open>Retry-After: -5\<close>:
  \<^verbatim>\<open>strconv.Atoi\<close> accepts it, the code takes \<open>- 5\<close> seconds as the wait, and the sleep of
  a negative duration returns at once; the run sleeps only the backoff of 1 second.
\<close>

theorem negative_retry_after_used:
  "retryAfter \<lparr>resp_StatusCode = 429, resp_Status = ''429 Too Many Requests'',
               resp_Header = [''Retry-After'' \<mapsto> [''-5'']], resp_ReadAll = Inr []\<rparr> = - 5 \<and>
   sleeps (trace (snd (request (first_then rate_limited_neg success) client0 ''GET'' ''/budgets'' None)))
     = [word_of_int (- 5) * Second, 1 * Second] \<and>
   slept_ns (word_of_int (- 5) * Second) = 0 \<and>
   total_slept (trace (snd (request (first_then rate_limited_neg success) client0 ''GET'' ''/budgets'' None)))
     = 1000000000"
  by (simp add: run_defs world_defs)

text \<open>
  C3, amended. An attempt that receives a 429 sleeps once after the attempt, and the
  iteration continues. The duration is 60 seconds when the header \<^verbatim>\<open>Retry-After\<close> is absent
  or is not accepted by \<^verbatim>\<open>strconv.Atoi\<close>; when \<^verbatim>\<open>strconv.Atoi\<close> yields \<open>v\<close> (a decimal
  integer with an optional sign) and \<open>\<bar>v\<bar> \<le> 9223372036\<close>, it is exactly \<open>v\<close> seconds, which
  for \<open>v \<le> 0\<close> means no wait at all.
\<close>

theorem retry_after_wait:
  assumes "NewRequest w method (baseURL c @ endpoint) = None"
    and "result (Do w n) = Inr resp"
    and "resp_ReadAll resp = Inr b"
    and "resp_StatusCode resp = 429"
  shows "\<exists>st' d.
           iteration w c method endpoint n st = Continue st' \<and>
           trace st' = trace (wait_before n st) @
             [Attempt n (new_request c method (baseURL c @ endpoint) (reader st)), Sleep d] \<and>
           (Header_Get (resp_Header resp) ''Retry-After'' = [] \<or>
            Atoi (Header_Get (resp_Header resp) ''Retry-After'') = None \<longrightarrow>
              d = 60 * Second \<and> slept_ns d = 60000000000) \<and>
           (\<forall>v. Atoi (Header_Get (resp_Header resp) ''Retry-After'') = Some v \<and>
                \<bar>v\<bar> \<le> 9223372036 \<longrightarrow>
              d = word_of_int v * Second \<and> sint d = v * 1000000000 \<and>
              slept_ns d = nat v * 1000000000)"
proof -
  let ?h = "Header_Get (resp_Header resp) ''Retry-After''"
  let ?d = "word_of_int (retryAfter resp) * Second :: Duration"
  have empty: "Atoi [] = None"
    by (simp add: Atoi_def)
  let ?st' = "(wait_before n st)
        \<lparr>trace := trace (wait_before n st) @
            [Attempt n (new_request c method (baseURL c @ endpoint) (reader (wait_before n st)))],
         reader := consume (reader (wait_before n st)) (bodyRead (Do w n)),
         lastErr := Some (API (NewRateLimitError (retryAfter resp))),
         trace := (trace (wait_before n st) @
            [Attempt n (new_request c method (baseURL c @ endpoint) (reader (wait_before n st)))])
            @ [Sleep ?d]\<rparr>"
  have it: "iteration w c method endpoint n st = Continue ?st'"
    using assms by (simp add: iteration_def handle_response_def StatusTooManyRequests_def Let_def)
  have rd: "reader (wait_before n st) = reader st"
    by (simp add: wait_before_def)
  have dflt: "?d = 60 * Second \<and> slept_ns ?d = 60000000000"
    if "?h = [] \<or> Atoi ?h = None"
  proof -
    have "retryAfter resp = 60"
      using that by (auto simp add: retryAfter_def Let_def)
    then show ?thesis
      using slept_ns_seconds [of 60] by simp
  qed
  have val: "?d = word_of_int v * Second \<and> sint ?d = v * 1000000000 \<and>
      slept_ns ?d = nat v * 1000000000"
    if "Atoi ?h = Some v \<and> \<bar>v\<bar> \<le> 9223372036" for v
  proof -
    have "?h \<noteq> []"
      using that empty by auto
    then have "retryAfter resp = v"
      using that by (simp add: retryAfter_def Let_def)
    then show ?thesis
      using that sint_seconds [of v] slept_ns_seconds [of v] by simp
  qed
  have tr: "trace ?st' = trace (wait_before n st) @
      [Attempt n (new_request c method (baseURL c @ endpoint) (reader st)), Sleep ?d]"
    by (simp add: rd)
  show ?thesis
  proof (intro exI conjI)
    show "iteration w c method endpoint n st = Continue ?st'"
      by (rule it)
    show "trace ?st' = trace (wait_before n st) @
        [Attempt n (new_request c method (baseURL c @ endpoint) (reader st)), Sleep ?d]"
      by (rule tr)
    show "?h = [] \<or> Atoi ?h = None \<longrightarrow> ?d = 60 * Second \<and> slept_ns ?d = 60000000000"
      using dflt by blast
    show "\<forall>v. Atoi ?h = Some v \<and> \<bar>v\<bar> \<le> 9223372036 \<longrightarrow>
        ?d = word_of_int v * Second \<and> sint ?d = v * 1000000000 \<and>
        slept_ns ?d = nat v * 1000000000"
      using val by blast
  qed
qed

text \<open>\<^verbatim>\<open>Retry-After: 5\<close> on the first attempt: a sleep of 5 seconds after the attempt.\<close>

theorem retry_after_wait_witness:
  "\<exists>st'. iteration (first_then rate_limited_5 success) client0 ''GET'' ''/budgets'' 0
           \<lparr>backoff = InitialBackoff, lastErr = None, reader = None, trace = []\<rparr> = Continue st' \<and>
         trace st' =
           [Attempt 0 (new_request client0 ''GET'' (baseURL client0 @ ''/budgets'') None),
            Sleep (5 * Second)] \<and>
         slept_ns (5 * Second) = 5000000000"
proof -
  let ?w = "first_then rate_limited_5 success"
  let ?r = "\<lparr>resp_StatusCode = 429, resp_Status = ''429 Too Many Requests'',
      resp_Header = [''Retry-After'' \<mapsto> [''5'']], resp_ReadAll = Inr []\<rparr>"
  let ?st = "\<lparr>backoff = InitialBackoff, lastErr = None, reader = None, trace = []\<rparr>"
  have nr: "NewRequest ?w ''GET'' (baseURL client0 @ ''/budgets'') = None"
    by (simp add: world_defs)
  have r: "result (Do ?w 0) = Inr ?r"
    by (simp add: world_defs)
  have a: "Atoi (Header_Get (resp_Header ?r) ''Retry-After'') = Some 5 \<and> \<bar>5::int\<bar> \<le> 9223372036"
    by (simp add: Header_Get_def Atoi_def is_digit_def)
  from retry_after_wait [OF nr r, of "[]" ?st] obtain st' d where
    "iteration ?w client0 ''GET'' ''/budgets'' 0 ?st = Continue st'"
    "trace st' = trace (wait_before 0 ?st) @
       [Attempt 0 (new_request client0 ''GET'' (baseURL client0 @ ''/budgets'') (reader ?st)), Sleep d]"
    "\<forall>v. Atoi (Header_Get (resp_Header ?r) ''Retry-After'') = Some v \<and> \<bar>v\<bar> \<le> 9223372036 \<longrightarrow>
        d = word_of_int v * Second \<and> sint d = v * 1000000000 \<and> slept_ns d = nat v * 1000000000"
    by auto
  with a show ?thesis
    by (auto simp add: wait_before_def)
qed

text \<open>
  C4, as claimed: every response that is not 2xx and carries an error envelope with a
  name yields an error whose message is that name. This fails for status 401: the fixed
  authentication error is returned whatever the body says. It fails for status 429 as
  well: the error recorded is the fixed rate-limit error, and it is this one that comes
  back, wrapped, when every attempt receives a 429.
\<close>

theorem fixed_errors_override_envelope:
  "Unmarshal (first_then unauthorized success) error_body =
     Some \<lparr>Error_ID = ''e1'', Error_Name = ''Bad Request'', Error_Detail = ''missing field''\<rparr> \<and>
   fst (request (first_then unauthorized success) client0 ''GET'' ''/budgets'' None) =
     Inl (API \<lparr>Message = ''Unauthorized: Invalid or missing access token'', StatusCode = 401,
                ErrorID = [],
                Detail = ''Please check your YNAB_ACCESS_TOKEN environment variable''\<rparr>) \<and>
   Unmarshal (first_then rate_limited_envelope rate_limited_envelope) error_body =
     Some \<lparr>Error_ID = ''e1'', Error_Name = ''Bad Request'', Error_Detail = ''missing field''\<rparr> \<and>
   fst (request (first_then rate_limited_envelope rate_limited_envelope) client0 ''GET''
          ''/budgets'' None) =
     Inl (Wrap ''request failed after 3 retries''
           (API \<lparr>Message = ''Rate limit exceeded. Retry after 5 seconds'', StatusCode = 429,
                  ErrorID = [],
                  Detail = ''YNAB API has rate limits. Please wait before retrying''\<rparr>))"
  by (simp add: run_defs world_defs rate_limited_envelope_def)

text \<open>
  C4, amended. For a received response whose status is outside \<open>[200, 300)\<close> and is neither
  401 nor 429, the error that the loop records (5xx) or returns (any other status) is:
  message, error id and detail of the envelope when the body decodes to one with a
  non-empty name; otherwise the message "HTTP request failed: " followed by the status text
  of the response (its code and reason phrase), with empty error id and detail. The status
  code of the error is that of the response in both cases. For status 401 the fixed
  authentication error is returned, and for status 429 the fixed rate-limit error, which
  names the number of seconds to wait, is recorded: neither depends on the body.
\<close>

theorem error_envelope_classified:
  assumes "resp_ReadAll resp = Inr b"
    and "resp_StatusCode resp < 200 \<or> 300 \<le> resp_StatusCode resp"
  shows "(resp_StatusCode resp \<noteq> 401 \<and> resp_StatusCode resp \<noteq> 429 \<longrightarrow>
            handle_response w resp st =
              (if 500 \<le> resp_StatusCode resp \<and> resp_StatusCode resp < 600
               then Continue (st\<lparr>lastErr := Some (API (ynabErr w resp b))\<rparr>)
               else Return (Inl (API (ynabErr w resp b))) st)) \<and>
         (\<forall>e. Unmarshal w b = Some e \<and> Error_Name e \<noteq> [] \<longrightarrow>
            ynabErr w resp b =
              \<lparr>Message = Error_Name e, StatusCode = resp_StatusCode resp,
               ErrorID = Error_ID e, Detail = Error_Detail e\<rparr>) \<and>
         (Unmarshal w b = None \<or> (\<exists>e. Unmarshal w b = Some e \<and> Error_Name e = []) \<longrightarrow>
            ynabErr w resp b =
              \<lparr>Message = ''HTTP request failed: '' @ resp_Status resp,
               StatusCode = resp_StatusCode resp, ErrorID = [], Detail = []\<rparr>) \<and>
         (resp_StatusCode resp = 401 \<longrightarrow>
            handle_response w resp st =
              Return (Inl (API \<lparr>Message = ''Unauthorized: Invalid or missing access token'',
                                 StatusCode = 401, ErrorID = [],
                                 Detail = ''Please check your YNAB_ACCESS_TOKEN environment variable''\<rparr>))
                st) \<and>
         (resp_StatusCode resp = 429 \<longrightarrow>
            handle_response w resp st =
              Continue
                (st\<lparr>lastErr :=
                      Some (API \<lparr>Message = ''Rate limit exceeded. Retry after ''
                                            @ fmt_d (retryAfter resp) @ '' seconds'',
                                  StatusCode = 429, ErrorID = [],
                                  Detail = ''YNAB API has rate limits. Please wait before retrying''\<rparr>),
                    trace := trace st @ [Sleep (word_of_int (retryAfter resp) * Second)]\<rparr>))"
proof (intro conjI allI impI)
  have code: "StatusCode (ynabErr w resp b) = resp_StatusCode resp"
    by (simp add: ynabErr_def split: option.splits)
  assume "resp_StatusCode resp \<noteq> 401 \<and> resp_StatusCode resp \<noteq> 429"
  then show "handle_response w resp st =
      (if 500 \<le> resp_StatusCode resp \<and> resp_StatusCode resp < 600
       then Continue (st\<lparr>lastErr := Some (API (ynabErr w resp b))\<rparr>)
       else Return (Inl (API (ynabErr w resp b))) st)"
    using assms
    by (simp add: handle_response_def IsServerError_def code StatusTooManyRequests_def
        StatusUnauthorized_def)
next
  fix e
  assume "Unmarshal w b = Some e \<and> Error_Name e \<noteq> []"
  then show "ynabErr w resp b =
      \<lparr>Message = Error_Name e, StatusCode = resp_StatusCode resp,
       ErrorID = Error_ID e, Detail = Error_Detail e\<rparr>"
    by (simp add: ynabErr_def)
next
  assume "Unmarshal w b = None \<or> (\<exists>e. Unmarshal w b = Some e \<and> Error_Name e = [])"
  then show "ynabErr w resp b =
      \<lparr>Message = ''HTTP request failed: '' @ resp_Status resp,
       StatusCode = resp_StatusCode resp, ErrorID = [], Detail = []\<rparr>"
    by (auto simp add: ynabErr_def)
next
  assume "resp_StatusCode resp = 401"
  then show "handle_response w resp st =
      Return (Inl (API \<lparr>Message = ''Unauthorized: Invalid or missing access token'',
                         StatusCode = 401, ErrorID = [],
                         Detail = ''Please check your YNAB_ACCESS_TOKEN environment variable''\<rparr>))
        st"
    using assms(1)
    by (simp add: handle_response_def NewAuthError_def StatusTooManyRequests_def
        StatusUnauthorized_def)
next
  assume "resp_StatusCode resp = 429"
  then show "handle_response w resp st =
      Continue
        (st\<lparr>lastErr :=
              Some (API \<lparr>Message = ''Rate limit exceeded. Retry after ''
                                    @ fmt_d (retryAfter resp) @ '' seconds'',
                          StatusCode = 429, ErrorID = [],
                          Detail = ''YNAB API has rate limits. Please wait before retrying''\<rparr>),
            trace := trace st @ [Sleep (word_of_int (retryAfter resp) * Second)]\<rparr>)"
    using assms(1)
    by (simp add: handle_response_def NewRateLimitError_def StatusTooManyRequests_def)
qed

text \<open>
  The envelope of the claim with status 400, a body that is not JSON with status 500, and
  the envelope with status 401 and with status 429.
\<close>

theorem error_envelope_classified_witness:
  "handle_response (first_then bad_request success)
     \<lparr>resp_StatusCode = 400, resp_Status = ''400 Bad Request'', resp_Header = Map.empty,
      resp_ReadAll = Inr error_body\<rparr>
     \<lparr>backoff = InitialBackoff, lastErr = None, reader = None, trace = []\<rparr> =
   Return (Inl (API \<lparr>Message = ''Bad Request'', StatusCode = 400, ErrorID = ''e1'',
                      Detail = ''missing field''\<rparr>))
     \<lparr>backoff = InitialBackoff, lastErr = None, reader = None, trace = []\<rparr> \<and>
   handle_response (first_then bad_request success)
     \<lparr>resp_StatusCode = 500, resp_Status = ''500 Internal Server Error'', resp_Header = Map.empty,
      resp_ReadAll = Inr ''invalid json''\<rparr>
     \<lparr>backoff = InitialBackoff, lastErr = None, reader = None, trace = []\<rparr> =
   Continue
     \<lparr>backoff = InitialBackoff,
      lastErr = Some (API \<lparr>Message = ''HTTP request failed: 500 Internal Server Error'',
                            StatusCode = 500, ErrorID = [], Detail = []\<rparr>),
      reader = None, trace = []\<rparr> \<and>
   handle_response (first_then bad_request success)
     \<lparr>resp_StatusCode = 401, resp_Status = ''401 Unauthorized'', resp_Header = Map.empty,
      resp_ReadAll = Inr error_body\<rparr>
     \<lparr>backoff = InitialBackoff, lastErr = None, reader = None, trace = []\<rparr> =
   Return (Inl (API \<lparr>Message = ''Unauthorized: Invalid or missing access token'',
                      StatusCode = 401, ErrorID = [],
                      Detail = ''Please check your YNAB_ACCESS_TOKEN environment variable''\<rparr>))
     \<lparr>backoff = InitialBackoff, lastErr = None, reader = None, trace = []\<rparr> \<and>
   handle_response (first_then bad_request success)
     \<lparr>resp_StatusCode = 429, resp_Status = ''429 Too Many Requests'',
      resp_Header = [''Retry-After'' \<mapsto> [''5'']], resp_ReadAll = Inr error_body\<rparr>
     \<lparr>backoff = InitialBackoff, lastErr = None, reader = None, trace = []\<rparr> =
   Continue
     \<lparr>backoff = InitialBackoff,
      lastErr = Some (API \<lparr>Message = ''Rate limit exceeded. Retry after 5 seconds'',
                            StatusCode = 429, ErrorID = [],
                            Detail = ''YNAB API has rate limits. Please wait before retrying''\<rparr>),
      reader = None, trace = [Sleep (5 * Second)]\<rparr>"
proof -
  let ?w = "first_then bad_request success"
  let ?r = "\<lparr>resp_StatusCode = 400, resp_Status = ''400 Bad Request'', resp_Header = Map.empty,
      resp_ReadAll = Inr error_body\<rparr>"
  let ?r' = "\<lparr>resp_StatusCode = 500, resp_Status = ''500 Internal Server Error'',
      resp_Header = Map.empty, resp_ReadAll = Inr ''invalid json''\<rparr>"
  let ?r401 = "\<lparr>resp_StatusCode = 401, resp_Status = ''401 Unauthorized'', resp_Header = Map.empty,
      resp_ReadAll = Inr error_body\<rparr>"
  let ?r429 = "\<lparr>resp_StatusCode = 429, resp_Status = ''429 Too Many Requests'',
      resp_Header = [''Retry-After'' \<mapsto> [''5'']], resp_ReadAll = Inr error_body\<rparr>"
  let ?st = "\<lparr>backoff = InitialBackoff, lastErr = None, reader = None, trace = []\<rparr>"
  have d: "Unmarshal ?w error_body =
      Some \<lparr>Error_ID = ''e1'', Error_Name = ''Bad Request'', Error_Detail = ''missing field''\<rparr>"
    by (simp add: world_defs)
  have d': "Unmarshal ?w ''invalid json'' = None"
    by (simp add: world_defs error_body_def)
  have ra: "retryAfter ?r429 = 5" "fmt_d 5 = ''5''"
    by (simp_all add: retryAfter_def Header_Get_def Atoi_def is_digit_def fmt_d_def
        nat_digits.simps)
  from error_envelope_classified [of ?r error_body ?w ?st] d
  have "handle_response ?w ?r ?st =
      Return (Inl (API \<lparr>Message = ''Bad Request'', StatusCode = 400, ErrorID = ''e1'',
                         Detail = ''missing field''\<rparr>)) ?st"
    by simp
  moreover from error_envelope_classified [of ?r' "''invalid json''" ?w ?st] d'
  have "handle_response ?w ?r' ?st =
      Continue (?st\<lparr>lastErr := Some (API \<lparr>Message = ''HTTP request failed: 500 Internal Server Error'',
                            StatusCode = 500, ErrorID = [], Detail = []\<rparr>)\<rparr>)"
    by simp
  moreover from error_envelope_classified [of ?r401 error_body ?w ?st]
  have "handle_response ?w ?r401 ?st =
      Return (Inl (API \<lparr>Message = ''Unauthorized: Invalid or missing access token'',
                         StatusCode = 401, ErrorID = [],
                         Detail = ''Please check your YNAB_ACCESS_TOKEN environment variable''\<rparr>))
        ?st"
    by simp
  moreover from error_envelope_classified [of ?r429 error_body ?w ?st] ra
  have "handle_response ?w ?r429 ?st =
      Continue (?st\<lparr>lastErr := Some (API \<lparr>Message = ''Rate limit exceeded. Retry after 5 seconds'',
                            StatusCode = 429, ErrorID = [],
                            Detail = ''YNAB API has rate limits. Please wait before retrying''\<rparr>),
                  trace := [Sleep (5 * Second)]\<rparr>)"
    by simp
  ultimately show ?thesis by simp
qed

text \<open>
  C5. When every attempt is answered with status 500 (and the request can be built), there
  are exactly \<open>MaxRetries + 1 = 4\<close> attempts, numbered 0 to 3, the sleeps are 1, 2 and 4
  seconds, 7 seconds in all, and the error returned is the error of the last response wrapped
  in "request failed after 3 retries". In every run whatsoever the attempts are numbered
  \<open>0, 1, \<dots>, k - 1\<close> in this order for some \<open>k \<le> MaxRetries + 1\<close>: the attempt counter only
  grows and never exceeds \<open>MaxRetries + 1\<close>.
\<close>

theorem retry_bound:
  "(NewRequest w method (baseURL c @ endpoint) = None \<and>
    (\<forall>n\<le>MaxRetries. \<exists>resp b. result (Do w n) = Inr resp \<and> resp_ReadAll resp = Inr b \<and>
        resp_StatusCode resp = 500) \<longrightarrow>
      attempts (trace (snd (request w c method endpoint body))) = [0, 1, 2, 3] \<and>
      sleeps (trace (snd (request w c method endpoint body))) = [1 * Second, 2 * Second, 4 * Second] \<and>
      total_slept (trace (snd (request w c method endpoint body))) = 7000000000 \<and>
      (\<exists>resp b. result (Do w MaxRetries) = Inr resp \<and> resp_ReadAll resp = Inr b \<and>
         fst (request w c method endpoint body) =
           Inl (Wrap ''request failed after 3 retries'' (API (ynabErr w resp b))))) \<and>
   (\<exists>k\<le>MaxRetries + 1. attempts (trace (snd (request w c method endpoint body))) = [0..<k])"
proof (intro conjI impI)
  assume h: "NewRequest w method (baseURL c @ endpoint) = None \<and>
    (\<forall>n\<le>MaxRetries. \<exists>resp b. result (Do w n) = Inr resp \<and> resp_ReadAll resp = Inr b \<and>
        resp_StatusCode resp = 500)"
  then have nr: "NewRequest w method (baseURL c @ endpoint) = None" by simp
  from h have all: "\<And>n. n \<le> MaxRetries \<Longrightarrow> \<exists>resp b. result (Do w n) = Inr resp \<and>
      resp_ReadAll resp = Inr b \<and> resp_StatusCode resp = 500" by simp
  have retry: "\<forall>n\<le>MaxRetries. retryable (result (Do w n))"
    using all by (fastforce simp: retryable_def)
  have nowait: "rate_limit_sleep (result (Do w n)) = []" if "n \<le> MaxRetries" for n
    using all [OF that] by (auto simp: rate_limit_sleep_def)
  have made: "attempts_made w = 4"
    using attempts_made_all_retryable [OF retry] by (simp add: MaxRetries_def)
  have tr: "trace (snd (request w c method endpoint body)) =
      [Attempt 0 (sent w c method endpoint body 0),
       Sleep (1 * Second), Attempt 1 (sent w c method endpoint body 1),
       Sleep (2 * Second), Attempt 2 (sent w c method endpoint body 2),
       Sleep (4 * Second), Attempt 3 (sent w c method endpoint body 3)]"
    using nowait [of 0] nowait [of 1] nowait [of 2] nowait [of 3]
    by (simp add: trace_request [OF nr] made upt_0_4 chunk_def MaxRetries_def InitialBackoff_def)
  show "attempts (trace (snd (request w c method endpoint body))) = [0, 1, 2, 3]"
    by (simp add: tr)
  show "sleeps (trace (snd (request w c method endpoint body))) = [1 * Second, 2 * Second, 4 * Second]"
    by (simp add: tr)
  show "total_slept (trace (snd (request w c method endpoint body))) = 7000000000"
    by (simp add: tr slept_ns_def Second_def)
  from all [of MaxRetries] obtain resp b where
    last: "result (Do w MaxRetries) = Inr resp" "resp_ReadAll resp = Inr b" "resp_StatusCode resp = 500"
    by auto
  have "retryable (result (Do w 3))"
    using retry by (simp add: MaxRetries_def)
  then have "fst (request w c method endpoint body) =
      Inl (Wrap ''request failed after 3 retries'' (retry_error w (result (Do w 3))))"
    using outcome_exhausted [of w 3 c "method" endpoint body]
    by (simp add: fst_request [OF nr] made eval_nat_numeral)
  moreover have "retry_error w (result (Do w 3)) = API (ynabErr w resp b)"
    using last by (simp add: retry_error_def MaxRetries_def)
  ultimately show "\<exists>resp b. result (Do w MaxRetries) = Inr resp \<and> resp_ReadAll resp = Inr b \<and>
         fst (request w c method endpoint body) =
           Inl (Wrap ''request failed after 3 retries'' (API (ynabErr w resp b)))"
    using last by auto
next
  show "\<exists>k\<le>MaxRetries + 1. attempts (trace (snd (request w c method endpoint body))) = [0..<k]"
    by (rule attempts_bounded)
qed

text \<open>Every response is a 500 with a body that is not JSON.\<close>

theorem retry_bound_witness:
  "attempts (trace (snd (request (first_then server_error server_error) client0 ''GET'' ''/budgets'' None)))
     = [0, 1, 2, 3] \<and>
   total_slept (trace (snd (request (first_then server_error server_error) client0 ''GET'' ''/budgets'' None)))
     = 7000000000 \<and>
   fst (request (first_then server_error server_error) client0 ''GET'' ''/budgets'' None) =
     Inl (Wrap ''request failed after 3 retries''
       (API \<lparr>Message = ''HTTP request failed: 500 Internal Server Error'', StatusCode = 500,
              ErrorID = [], Detail = []\<rparr>))"
proof -
  let ?w = "first_then server_error server_error"
  have h: "NewRequest ?w ''GET'' (baseURL client0 @ ''/budgets'') = None \<and>
    (\<forall>n\<le>MaxRetries. \<exists>resp b. result (Do ?w n) = Inr resp \<and> resp_ReadAll resp = Inr b \<and>
        resp_StatusCode resp = 500)"
    by (simp add: world_defs)
  have e: "result (Do ?w MaxRetries) = Inr resp \<Longrightarrow> resp_ReadAll resp = Inr b \<Longrightarrow>
      ynabErr ?w resp b = \<lparr>Message = ''HTTP request failed: 500 Internal Server Error'',
        StatusCode = 500, ErrorID = [], Detail = []\<rparr>" for resp b
    by (auto simp add: world_defs ynabErr_def error_body_def)
  from retry_bound [of ?w "''GET''" client0 "''/budgets''" None] h e
  show ?thesis by auto
qed

text \<open>
  C6. When an attempt receives a response whose status is outside \<open>[200, 300)\<close> and is
  neither 429 nor 5xx, such as 401, 400 or 404, the run ends with that attempt: the error
  of that response is returned (for 401 the fixed authentication error), and nothing
  follows the attempt in the trace, neither a sleep nor another attempt. When this is the
  first attempt, the trace is that one attempt. A further attempt follows attempt \<open>i\<close>
  exactly when attempt \<open>i\<close> was made, \<open>i < MaxRetries\<close>, and attempt \<open>i\<close> ended in a failure
  of the transport (no response, or a response whose body could not be read), in status 429
  or in status 5xx.
\<close>

theorem non_retryable_returned_at_once:
  assumes "NewRequest w method (baseURL c @ endpoint) = None"
  shows "(n \<in> set (attempts (trace (snd (request w c method endpoint body)))) \<and>
          result (Do w n) = Inr resp \<and> resp_ReadAll resp = Inr b \<and>
          (resp_StatusCode resp < 200 \<or> 300 \<le> resp_StatusCode resp) \<and>
          resp_StatusCode resp \<noteq> 429 \<and>
          \<not> (500 \<le> resp_StatusCode resp \<and> resp_StatusCode resp < 600) \<longrightarrow>
            fst (request w c method endpoint body) =
              Inl (API (if resp_StatusCode resp = 401 then NewAuthError else ynabErr w resp b)) \<and>
            attempts (trace (snd (request w c method endpoint body))) = [0..<Suc n] \<and>
            (\<exists>es. trace (snd (request w c method endpoint body)) =
                    es @ [Attempt n (sent w c method endpoint body n)]) \<and>
            (n = 0 \<longrightarrow> trace (snd (request w c method endpoint body)) =
                    [Attempt 0 (new_request c method (baseURL c @ endpoint) body)])) \<and>
         (\<forall>i. Suc i \<in> set (attempts (trace (snd (request w c method endpoint body)))) \<longleftrightarrow>
              i \<in> set (attempts (trace (snd (request w c method endpoint body)))) \<and>
              i < MaxRetries \<and>
              (case result (Do w i) of
                 Inl err \<Rightarrow> True
               | Inr r \<Rightarrow>
                   (case resp_ReadAll r of
                      Inl err \<Rightarrow> True
                    | Inr rb \<Rightarrow> resp_StatusCode r = 429 \<or>
                        (500 \<le> resp_StatusCode r \<and> resp_StatusCode r < 600))))"
proof (intro conjI impI allI)
  note nr = assms
  assume h: "n \<in> set (attempts (trace (snd (request w c method endpoint body)))) \<and>
          result (Do w n) = Inr resp \<and> resp_ReadAll resp = Inr b \<and>
          (resp_StatusCode resp < 200 \<or> 300 \<le> resp_StatusCode resp) \<and>
          resp_StatusCode resp \<noteq> 429 \<and>
          \<not> (500 \<le> resp_StatusCode resp \<and> resp_StatusCode resp < 600)"
  then have n: "n < attempts_made w"
    by (simp add: attempt_made_iff [OF nr])
  have stop: "\<not> retryable (result (Do w n))"
    using h by (auto simp add: retryable_def)
  have N: "attempts_made w = Suc n"
    using n stop by (rule attempts_made_stops)
  have "final_result w (result (Do w n)) =
      Inl (API (if resp_StatusCode resp = 401 then NewAuthError else ynabErr w resp b))"
    using h by (auto simp add: final_result_def)
  then show "fst (request w c method endpoint body) =
      Inl (API (if resp_StatusCode resp = 401 then NewAuthError else ynabErr w resp b))"
    using outcome_final [OF stop] by (simp add: fst_request [OF nr] N)
  show "attempts (trace (snd (request w c method endpoint body))) = [0..<Suc n]"
    by (simp only: attempts_request [OF nr] N)
  have nowait: "rate_limit_sleep (result (Do w n)) = []"
    using h by (auto simp add: rate_limit_sleep_def)
  show "\<exists>es. trace (snd (request w c method endpoint body)) =
      es @ [Attempt n (sent w c method endpoint body n)]"
    by (rule trace_ends_with_attempt [OF nr N nowait])
  show "trace (snd (request w c method endpoint body)) =
      [Attempt 0 (new_request c method (baseURL c @ endpoint) body)]" if "n = 0"
    using that N nowait
    by (simp add: trace_request [OF nr] chunk_def sent_def consume_0)
next
  fix i
  show "Suc i \<in> set (attempts (trace (snd (request w c method endpoint body)))) \<longleftrightarrow>
      i \<in> set (attempts (trace (snd (request w c method endpoint body)))) \<and>
      i < MaxRetries \<and>
      (case result (Do w i) of
         Inl err \<Rightarrow> True
       | Inr r \<Rightarrow>
           (case resp_ReadAll r of
              Inl err \<Rightarrow> True
            | Inr rb \<Rightarrow> resp_StatusCode r = 429 \<or>
                (500 \<le> resp_StatusCode r \<and> resp_StatusCode r < 600)))"
    using retry_iff [OF assms, of i body] by (simp only: retryable_def)
qed

text \<open>A 404 on the first attempt: one attempt, no sleep, the error returned.\<close>

theorem non_retryable_returned_at_once_witness:
  "fst (request (first_then not_found success) client0 ''GET'' ''/budgets/x'' None) =
     Inl (API \<lparr>Message = ''HTTP request failed: 404 Not Found'', StatusCode = 404,
                ErrorID = [], Detail = []\<rparr>) \<and>
   trace (snd (request (first_then not_found success) client0 ''GET'' ''/budgets/x'' None)) =
     [Attempt 0 (new_request client0 ''GET'' (baseURL client0 @ ''/budgets/x'') None)]"
proof -
  let ?w = "first_then not_found success"
  let ?r = "\<lparr>resp_StatusCode = 404, resp_Status = ''404 Not Found'',
      resp_Header = Map.empty, resp_ReadAll = Inr (ok_body :: string)\<rparr>"
  have nr: "NewRequest ?w ''GET'' (baseURL client0 @ ''/budgets/x'') = None"
    by (simp add: world_defs)
  have "0 \<in> set (attempts (trace (snd (request ?w client0 ''GET'' ''/budgets/x'' None))))"
    by (simp add: run_defs world_defs not_found_def)
  moreover obtain resp b where
    r: "result (Do ?w 0) = Inr resp" "resp_ReadAll resp = Inr b" "resp_StatusCode resp = 404"
       "resp_Status resp = ''404 Not Found''" \<open>b = ''{"error":{}}''\<close>
    by (simp add: world_defs not_found_def)
  moreover have "ynabErr ?w resp b = \<lparr>Message = ''HTTP request failed: 404 Not Found'',
      StatusCode = 404, ErrorID = [], Detail = []\<rparr>"
    using r by (simp add: ynabErr_def world_defs error_body_def)
  ultimately show ?thesis
    using non_retryable_returned_at_once [OF nr, of 0 None resp b]
    by simp
qed

text \<open>
  C7. As long as no attempt so far has received a 429 (every retry was caused by a server
  error or a failure of the transport), the trace up to attempt \<open>n\<close> is: attempt 0, and for
  each later attempt \<open>i\<close> one sleep of \<open>InitialBackoff * 2 ^ (i - 1)\<close> followed by the
  attempt. That sleep lasts \<open>2 ^ (i - 1)\<close> seconds: 1, 2 and 4 seconds before the second,
  third and fourth attempt.
\<close>

theorem backoff_doubles:
  assumes "NewRequest w method (baseURL c @ endpoint) = None"
    and "n \<in> set (attempts (trace (snd (request w c method endpoint body))))"
    and "\<forall>i<n. \<forall>resp. result (Do w i) = Inr resp \<longrightarrow> resp_StatusCode resp \<noteq> 429"
  shows "(\<exists>rest. trace (snd (request w c method endpoint body)) =
            concat (map (\<lambda>i. (if 0 < i then [Sleep (InitialBackoff * 2 ^ (i - 1))] else [])
                               @ [Attempt i (sent w c method endpoint body i)]) [0..<Suc n])
            @ rest) \<and>
         (\<forall>i. 0 < i \<and> i \<le> n \<longrightarrow>
            slept_ns (InitialBackoff * 2 ^ (i - 1)) = 1000000000 * 2 ^ (i - 1))"
proof (intro conjI allI impI)
  note nr = assms(1)
  have n: "n < attempts_made w"
    using assms(2) by (simp add: attempt_made_iff [OF nr])
  have nowait: "rate_limit_sleep (result (Do w i)) = []" if "i < n" for i
    using assms(3) that by (auto simp add: rate_limit_sleep_def split: sum.splits)
  have "map (lead_up w c method endpoint body) [0..<Suc n] =
      map (\<lambda>i. (if 0 < i then [Sleep (InitialBackoff * 2 ^ (i - 1))] else [])
                 @ [Attempt i (sent w c method endpoint body i)]) [0..<Suc n]"
    by (rule map_cong [OF refl]) (auto simp add: lead_up_def nowait)
  with trace_prefix [OF nr n, of body]
  have "trace (snd (request w c method endpoint body)) =
      concat (map (\<lambda>i. (if 0 < i then [Sleep (InitialBackoff * 2 ^ (i - 1))] else [])
                         @ [Attempt i (sent w c method endpoint body i)]) [0..<Suc n])
      @ (rate_limit_sleep (result (Do w n))
         @ concat (map (chunk w c method endpoint body) [Suc n..<attempts_made w]))"
    by (simp only:)
  then show "\<exists>rest. trace (snd (request w c method endpoint body)) =
      concat (map (\<lambda>i. (if 0 < i then [Sleep (InitialBackoff * 2 ^ (i - 1))] else [])
                         @ [Attempt i (sent w c method endpoint body i)]) [0..<Suc n])
      @ rest"
    by (rule exI)
next
  fix i
  assume i: "0 < i \<and> i \<le> n"
  have "n < attempts_made w"
    using assms(2) by (simp add: attempt_made_iff [OF assms(1)])
  then have "i - 1 \<le> MaxRetries"
    using i attempts_made_le [of w] by auto
  then show "slept_ns (InitialBackoff * 2 ^ (i - 1)) = 1000000000 * 2 ^ (i - 1)"
    by (simp add: slept_ns_backoff)
qed

text \<open>A refused connection, then three times a 500.\<close>

theorem backoff_doubles_witness:
  "\<exists>rest. trace (snd (request (first_then refused server_error) client0 ''GET'' ''/budgets'' None)) =
     [Attempt 0 (sent (first_then refused server_error) client0 ''GET'' ''/budgets'' None 0),
      Sleep (1 * Second),
      Attempt 1 (sent (first_then refused server_error) client0 ''GET'' ''/budgets'' None 1),
      Sleep (2 * Second),
      Attempt 2 (sent (first_then refused server_error) client0 ''GET'' ''/budgets'' None 2),
      Sleep (4 * Second),
      Attempt 3 (sent (first_then refused server_error) client0 ''GET'' ''/budgets'' None 3)] @ rest"
proof -
  let ?w = "first_then refused server_error"
  have nr: "NewRequest ?w ''GET'' (baseURL client0 @ ''/budgets'') = None"
    by (simp add: world_defs)
  have made: "3 \<in> set (attempts (trace (snd (request ?w client0 ''GET'' ''/budgets'' None))))"
    by (simp add: run_defs world_defs refused_def)
  have no429: "\<forall>i<3. \<forall>resp. result (Do ?w i) = Inr resp \<longrightarrow> resp_StatusCode resp \<noteq> 429"
    by (auto simp add: world_defs refused_def)
  from backoff_doubles [OF nr made no429] obtain rest where
    "trace (snd (request ?w client0 ''GET'' ''/budgets'' None)) =
       concat (map (\<lambda>i. (if 0 < i then [Sleep (InitialBackoff * 2 ^ (i - 1))] else [])
                          @ [Attempt i (sent ?w client0 ''GET'' ''/budgets'' None i)]) [0..<Suc 3])
       @ rest"
    by blast
  moreover have "[0..<Suc 3] = [0, 1, 2, 3]"
    by (simp add: upt_rec)
  ultimately have "trace (snd (request ?w client0 ''GET'' ''/budgets'' None)) =
     [Attempt 0 (sent ?w client0 ''GET'' ''/budgets'' None 0),
      Sleep (1 * Second),
      Attempt 1 (sent ?w client0 ''GET'' ''/budgets'' None 1),
      Sleep (2 * Second),
      Attempt 2 (sent ?w client0 ''GET'' ''/budgets'' None 2),
      Sleep (4 * Second),
      Attempt 3 (sent ?w client0 ''GET'' ''/budgets'' None 3)] @ rest"
    by (simp add: InitialBackoff_def)
  then show ?thesis by (rule exI)
qed

text \<open>
  C8. When an attempt receives a response with a status in \<open>[200, 300)\<close>, the run returns
  the body of that response and no error, and that attempt is the last event of the trace:
  no further attempt, no further sleep. After a 500 and then a 200 there are exactly
  2 attempts and the body of the 200 is returned.
\<close>

theorem success_short_circuits:
  assumes "NewRequest w method (baseURL c @ endpoint) = None"
    and "n \<in> set (attempts (trace (snd (request w c method endpoint body))))"
    and "result (Do w n) = Inr resp"
    and "resp_ReadAll resp = Inr b"
    and "200 \<le> resp_StatusCode resp" and "resp_StatusCode resp < 300"
  shows "fst (request w c method endpoint body) = Inr b \<and>
         attempts (trace (snd (request w c method endpoint body))) = [0..<Suc n] \<and>
         (\<exists>es. trace (snd (request w c method endpoint body)) =
                 es @ [Attempt n (sent w c method endpoint body n)])"
proof -
  note nr = assms(1)
  have n: "n < attempts_made w"
    using assms(2) by (simp add: attempt_made_iff [OF nr])
  have stop: "\<not> retryable (result (Do w n))"
    using assms(3-6) by (simp add: retryable_def)
  have N: "attempts_made w = Suc n"
    using n stop by (rule attempts_made_stops)
  have "final_result w (result (Do w n)) = Inr b"
    using assms(3-6) by (simp add: final_result_def)
  then have "fst (request w c method endpoint body) = Inr b"
    using outcome_final [OF stop] by (simp add: fst_request [OF nr] N)
  moreover have "attempts (trace (snd (request w c method endpoint body))) = [0..<Suc n]"
    by (simp only: attempts_request [OF nr] N)
  moreover have "rate_limit_sleep (result (Do w n)) = []"
    using assms(3-6) by (simp add: rate_limit_sleep_def)
  note trace_ends_with_attempt [OF nr N this]
  ultimately show ?thesis by blast
qed

text \<open>A 500 on the first attempt, a 200 on the second.\<close>

theorem success_short_circuits_witness:
  "fst (request (first_then server_error success) client0 ''GET'' ''/budgets'' None) = Inr ok_body \<and>
   attempts (trace (snd (request (first_then server_error success) client0 ''GET'' ''/budgets'' None)))
     = [0, 1]"
proof -
  let ?w = "first_then server_error success"
  have "NewRequest ?w ''GET'' (baseURL client0 @ ''/budgets'') = None"
    by (simp add: world_defs)
  moreover have "1 \<in> set (attempts (trace (snd (request ?w client0 ''GET'' ''/budgets'' None))))"
    by (simp add: run_defs world_defs)
  moreover have "result (Do ?w 1) = Inr \<lparr>resp_StatusCode = 200, resp_Status = ''200 OK'',
      resp_Header = Map.empty, resp_ReadAll = Inr ok_body\<rparr>"
    by (simp add: world_defs)
  ultimately show ?thesis
    using success_short_circuits [of ?w "''GET''" client0 "''/budgets''" 1 None _ ok_body]
    by (simp add: upt_rec)
qed

text \<open>
  C9. Every attempt is handed the one body reader as the attempts before have left it: the
  body of the request of attempt \<open>n\<close> is the original body without the bytes that the
  transport has read in attempts \<open>0, \<dots>, n - 1\<close>. So when the body is not empty, the
  transport reads all of it in the first attempt and that attempt fails retryably, the
  first request carries the body, a second attempt is made, and the request of every later
  attempt carries the empty body: a retry does not replay the first request.
\<close>

theorem body_reader_not_rewound:
  assumes "NewRequest w method (baseURL c @ endpoint) = None"
  shows "(\<forall>n q. Attempt n q \<in> set (trace (snd (request w c method endpoint body))) \<longrightarrow>
            req_Body q = consume body (\<Sum>i<n. bodyRead (Do w i))) \<and>
         (body = Some b \<and> b \<noteq> [] \<and> length b \<le> bodyRead (Do w 0) \<and>
          retryable (result (Do w 0)) \<longrightarrow>
            Attempt 0 (new_request c method (baseURL c @ endpoint) (Some b))
              \<in> set (trace (snd (request w c method endpoint body))) \<and>
            Attempt 1 (new_request c method (baseURL c @ endpoint) (Some []))
              \<in> set (trace (snd (request w c method endpoint body))) \<and>
            (\<forall>n q. Attempt n q \<in> set (trace (snd (request w c method endpoint body))) \<and> 0 < n \<longrightarrow>
               req_Body q = Some [] \<and> req_Body q \<noteq> Some b))"
proof (intro conjI allI impI)
  note nr = assms
  fix n q
  assume "Attempt n q \<in> set (trace (snd (request w c method endpoint body)))"
  then show "req_Body q = consume body (\<Sum>i<n. bodyRead (Do w i))"
    by (simp add: Attempt_in_trace [OF nr] sent_def new_request_def)
next
  note nr = assms
  assume h: "body = Some b \<and> b \<noteq> [] \<and> length b \<le> bodyRead (Do w 0) \<and>
          retryable (result (Do w 0))"
  have later: "consume body (\<Sum>i<n. bodyRead (Do w i)) = Some []" if "0 < n" for n
  proof -
    have "bodyRead (Do w 0) \<le> (\<Sum>i<n. bodyRead (Do w i))"
      using that by (intro member_le_sum) simp_all
    then show ?thesis
      using h by (simp add: consume_def)
  qed
  have "0 < attempts_made w"
    by (rule attempts_made_pos)
  then show "Attempt 0 (new_request c method (baseURL c @ endpoint) (Some b))
      \<in> set (trace (snd (request w c method endpoint body)))"
    using h by (simp add: Attempt_in_trace [OF nr] sent_def consume_0)
  have "Suc 0 < attempts_made w"
    using attempts_made_continues [of 0 w] attempts_made_pos [of w] h
    by (simp add: MaxRetries_def)
  then show "Attempt 1 (new_request c method (baseURL c @ endpoint) (Some []))
      \<in> set (trace (snd (request w c method endpoint body)))"
    using later [of 1] by (simp add: Attempt_in_trace [OF nr] sent_def)
  fix n q
  assume a: "Attempt n q \<in> set (trace (snd (request w c method endpoint body))) \<and> 0 < n"
  then have "req_Body q = Some []"
    using later [of n] by (simp add: Attempt_in_trace [OF nr] sent_def new_request_def)
  then show "req_Body q = Some []" and "req_Body q \<noteq> Some b"
    using h by auto
qed

text \<open>A POST of 3 bytes that is answered with a 500 and then with a 200.\<close>

theorem body_reader_not_rewound_witness:
  "Attempt 0 (new_request client0 ''POST'' (baseURL client0 @ ''/budgets/b/transactions'') (Some ''abc''))
     \<in> set (trace (snd (request (first_then server_error_after_body success) client0 ''POST''
                          ''/budgets/b/transactions'' (Some ''abc'')))) \<and>
   Attempt 1 (new_request client0 ''POST'' (baseURL client0 @ ''/budgets/b/transactions'') (Some []))
     \<in> set (trace (snd (request (first_then server_error_after_body success) client0 ''POST''
                          ''/budgets/b/transactions'' (Some ''abc''))))"
proof -
  let ?w = "first_then server_error_after_body success"
  have nr: "NewRequest ?w ''POST'' (baseURL client0 @ ''/budgets/b/transactions'') = None"
    by (simp add: world_defs)
  have h: "Some ''abc'' = Some ''abc'' \<and> ''abc'' \<noteq> [] \<and> length ''abc'' \<le> bodyRead (Do ?w 0) \<and>
      retryable (result (Do ?w 0))"
    by (simp add: world_defs server_error_after_body_def retryable_def)
  from body_reader_not_rewound [OF nr, of "Some ''abc''" "''abc''"] h
  show ?thesis by blast
qed

text \<open>
  C10. When \<^verbatim>\<open>httpClient.Do\<close> returns a response and reading its body fails, then whatever the
  status code is: the iteration ends with \<^verbatim>\<open>continue\<close>, \<^verbatim>\<open>lastErr\<close> is the wrapped read
  error, and nothing but the attempt is added to the trace; if the attempt was not the last
  one allowed, the next attempt is made; if it was the last, the caller gets the read
  error wrapped in "request failed after 3 retries". When the body of every response is
  unreadable, 4 attempts are made and that is the result.
\<close>

theorem unreadable_body_retried:
  assumes "NewRequest w method (baseURL c @ endpoint) = None"
  shows "(result (Do w n) = Inr resp \<and> resp_ReadAll resp = Inl err \<longrightarrow>
            (\<exists>st'. iteration w c method endpoint n st = Continue st' \<and>
                   lastErr st' = Some (Wrap ''failed to read response'' (Lib err)) \<and>
                   trace st' = trace (wait_before n st) @
                     [Attempt n (new_request c method (baseURL c @ endpoint) (reader st))]) \<and>
            (n \<in> set (attempts (trace (snd (request w c method endpoint body)))) \<longrightarrow>
               (n < MaxRetries \<longrightarrow>
                  Suc n \<in> set (attempts (trace (snd (request w c method endpoint body))))) \<and>
               (n = MaxRetries \<longrightarrow>
                  fst (request w c method endpoint body) =
                    Inl (Wrap ''request failed after 3 retries''
                          (Wrap ''failed to read response'' (Lib err)))))) \<and>
         ((\<forall>i\<le>MaxRetries. \<exists>r e. result (Do w i) = Inr r \<and> resp_ReadAll r = Inl e) \<longrightarrow>
            attempts (trace (snd (request w c method endpoint body))) = [0, 1, 2, 3] \<and>
            (\<exists>r e. result (Do w MaxRetries) = Inr r \<and> resp_ReadAll r = Inl e \<and>
               fst (request w c method endpoint body) =
                 Inl (Wrap ''request failed after 3 retries''
                       (Wrap ''failed to read response'' (Lib e)))))"
proof (intro conjI impI)
  note nr = assms
  assume h: "result (Do w n) = Inr resp \<and> resp_ReadAll resp = Inl err"
  have retry: "retryable (result (Do w n))"
    using h by (simp add: retryable_def)
  have err: "retry_error w (result (Do w n)) = Wrap ''failed to read response'' (Lib err)"
    using h by (simp add: retry_error_def)
  have nowait: "rate_limit_sleep (result (Do w n)) = []"
    using h by (simp add: rate_limit_sleep_def)
  have "iteration w c method endpoint n st = Continue (after_attempt w c method endpoint n st)"
    using retry by (simp add: iteration_closed [OF nr])
  moreover have "lastErr (after_attempt w c method endpoint n st) =
      Some (Wrap ''failed to read response'' (Lib err))"
    using retry err by (simp add: after_attempt_def)
  moreover have "trace (after_attempt w c method endpoint n st) = trace (wait_before n st) @
      [Attempt n (new_request c method (baseURL c @ endpoint) (reader st))]"
    using nowait by (simp add: after_attempt_def wait_before_def)
  ultimately show "\<exists>st'. iteration w c method endpoint n st = Continue st' \<and>
      lastErr st' = Some (Wrap ''failed to read response'' (Lib err)) \<and>
      trace st' = trace (wait_before n st) @
        [Attempt n (new_request c method (baseURL c @ endpoint) (reader st))]"
    by blast
  assume made: "n \<in> set (attempts (trace (snd (request w c method endpoint body))))"
  show "Suc n \<in> set (attempts (trace (snd (request w c method endpoint body))))"
    if "n < MaxRetries"
    using retry_iff [OF nr, of n body] made retry that by simp
  show "fst (request w c method endpoint body) =
      Inl (Wrap ''request failed after 3 retries'' (Wrap ''failed to read response'' (Lib err)))"
    if "n = MaxRetries"
  proof -
    have "n < attempts_made w"
      using made by (simp add: attempt_made_iff [OF nr])
    then have "attempts_made w = Suc n"
      using attempts_made_le [of w] that by simp
    then show ?thesis
      using outcome_exhausted [OF retry] err by (simp add: fst_request [OF nr])
  qed
next
  note nr = assms
  assume all: "\<forall>i\<le>MaxRetries. \<exists>r e. result (Do w i) = Inr r \<and> resp_ReadAll r = Inl e"
  have retry: "\<forall>n\<le>MaxRetries. retryable (result (Do w n))"
    using all by (fastforce simp: retryable_def)
  have N: "attempts_made w = Suc MaxRetries"
    using attempts_made_all_retryable [OF retry] by simp
  show "attempts (trace (snd (request w c method endpoint body))) = [0, 1, 2, 3]"
    by (simp add: attempts_request [OF nr] N MaxRetries_def upt_rec)
  from all obtain r e where
    last: "result (Do w MaxRetries) = Inr r" "resp_ReadAll r = Inl e"
    by blast
  have "retry_error w (result (Do w MaxRetries)) = Wrap ''failed to read response'' (Lib e)"
    using last by (simp add: retry_error_def)
  moreover have "retryable (result (Do w MaxRetries))"
    using retry by simp
  ultimately have "fst (request w c method endpoint body) =
      Inl (Wrap ''request failed after 3 retries'' (Wrap ''failed to read response'' (Lib e)))"
    using outcome_exhausted [of w MaxRetries c "method" endpoint body]
    by (simp add: fst_request [OF nr] N)
  with last show "\<exists>r e. result (Do w MaxRetries) = Inr r \<and> resp_ReadAll r = Inl e \<and>
      fst (request w c method endpoint body) =
        Inl (Wrap ''request failed after 3 retries'' (Wrap ''failed to read response'' (Lib e)))"
    by blast
qed

text \<open>Four responses with status 200 whose body breaks off: 4 attempts, then the error.\<close>

theorem unreadable_body_retried_witness:
  "attempts (trace (snd (request (first_then cut_off cut_off) client0 ''GET'' ''/budgets'' None)))
     = [0, 1, 2, 3] \<and>
   fst (request (first_then cut_off cut_off) client0 ''GET'' ''/budgets'' None) =
     Inl (Wrap ''request failed after 3 retries''
           (Wrap ''failed to read response'' (Lib ''unexpected EOF'')))"
proof -
  let ?w = "first_then cut_off cut_off"
  have nr: "NewRequest ?w ''GET'' (baseURL client0 @ ''/budgets'') = None"
    by (simp add: world_defs)
  have all: "\<forall>i\<le>MaxRetries. \<exists>r e. result (Do ?w i) = Inr r \<and> resp_ReadAll r = Inl e"
    by (simp add: world_defs cut_off_def)
  have e: "result (Do ?w MaxRetries) = Inr r \<Longrightarrow> resp_ReadAll r = Inl e \<Longrightarrow> e = ''unexpected EOF''"
    for r e
    by (auto simp add: world_defs cut_off_def)
  from unreadable_body_retried [OF nr, of 0 _ _ _ None] all e
  show ?thesis by auto
qed

end
